theory Spec2Isabelle
  imports
    Main
    "HOL-Library.Word"
    "HOL-Library.Multiset"
    "HOL-Library.Char_ord"
    "HOL-Library.List_Lexorder"
begin

section \<open>Values shared by both packages\<close>

type_synonym int64 = "64 word"
type_synonym int32 = "32 word"
type_synonym bytes = string

text \<open>
  An error value as it is produced outside the two packages: the driver's
  \<^verbatim>\<open>*pgconn.PgError\<close> with its \<^verbatim>\<open>Code\<close>, any other error by its message, or an
  error that wraps another one (what \<^verbatim>\<open>Unwrap\<close> returns).
\<close>

datatype raw_error =
    PgError string
  | OtherError string
  | WrappedError string raw_error

datatype ErrorCode =
    ErrorCodeDatabaseDoesNotExist
  | ErrorCodeCollectionDoesNotExist
  | ErrorCodeInsertDuplicateID

text \<open>
  The Go \<^verbatim>\<open>error\<close> values the packages return: a raw error, \<^verbatim>\<open>lazyerrors.Error(err)\<close>
  (the error wrapped with the call site), \<^verbatim>\<open>lazyerrors.Errorf(...)\<close> (a new error with
  the formatted message) and \<^verbatim>\<open>backends.NewError(code, err)\<close>.
\<close>

datatype error =
    Raw raw_error
  | LazyError error
  | LazyErrorf string
  | BackendError ErrorCode error

text \<open>A call either returns an error value or panics; both are branches of the model.\<close>

datatype failure = Err error | Panic string

section \<open>Package postgresql: what the collection calls\<close>

text \<open>
  A statement argument (\<^verbatim>\<open>any\<close>), a statement as it is sent to the engine (its text
  and its arguments), a result row (its column values), and \<^verbatim>\<open>pgx.Rows\<close>: the rows that
  \<^verbatim>\<open>Next\<close> yields before it returns false, and what \<^verbatim>\<open>Err\<close> returns afterwards.
\<close>

datatype any = AnyBytes bytes | AnyString string | AnyInt64 int64

type_synonym stmt = "string \<times> any list"

text \<open>
  How the engine answered a statement: with an error, with a command tag (by its
  \<^verbatim>\<open>RowsAffected\<close>), or with rows or a scanned value.
\<close>

datatype reply = Failed raw_error | Affected int64 | Returned

type_synonym row = "any list"

record Rows =
  remaining :: "row list"
  Err_after :: "raw_error option"

text \<open>
  The storage engine behind a pool handle \<^verbatim>\<open>*pgxpool.Pool\<close> (and behind a transaction
  \<^verbatim>\<open>pgx.Tx\<close> opened on it), as functions of what the engine stores (\<open>'db\<close>):
  \<^verbatim>\<open>Exec\<close> returns the command tag's \<^verbatim>\<open>RowsAffected\<close> and the new contents, or the
  driver's error; \<^verbatim>\<open>Query\<close> returns rows; \<^verbatim>\<open>QueryRow(...).Scan(&b)\<close> returns the
  scanned bytes; \<^verbatim>\<open>Begin\<close> and \<^verbatim>\<open>Commit\<close> may fail.
\<close>

record 'db Pool =
  Begin :: "'db \<Rightarrow> raw_error option"
  Commit :: "'db \<Rightarrow> raw_error option"
  Exec :: "'db \<Rightarrow> string \<Rightarrow> any list \<Rightarrow> raw_error + int64 \<times> 'db"
  Query :: "'db \<Rightarrow> string \<Rightarrow> any list \<Rightarrow> raw_error + Rows"
  QueryRow_Scan :: "'db \<Rightarrow> string \<Rightarrow> any list \<Rightarrow> raw_error + bytes"

text \<open>
  The state an operation runs in: the contents of the engine, and the statements this
  package has sent to it so far with the engine's answers, oldest first. A rollback
  restores the contents; what was sent stays sent.
\<close>

record 'db engine =
  store :: 'db
  sent :: "(stmt \<times> reply) list"

text \<open>
  \<^verbatim>\<open>metadata.IndexKeyPair\<close>, \<^verbatim>\<open>metadata.IndexInfo\<close> and \<^verbatim>\<open>metadata.Collection\<close>, with
  the fields the collection reads. \<open>Capped\<close> is what the method \<^verbatim>\<open>Capped()\<close> returns.
\<close>

record metadata_IndexKeyPair =
  Field :: string
  Descending :: bool

record metadata_IndexInfo =
  Name :: string
  PgIndex :: string
  Key :: "metadata_IndexKeyPair list"
  Unique :: bool

record metadata_Collection =
  TableName :: string
  Indexes :: "metadata_IndexInfo list"
  Capped :: bool

text \<open>
  \<^verbatim>\<open>metadata.Registry\<close>, by the three methods the modelled operations call. Each
  returns an error, or its value; a nil pointer is \<open>None\<close>. \<^verbatim>\<open>CollectionCreate\<close> may
  change the contents of the engine.
\<close>

record 'db Registry =
  DatabaseGetExisting :: "'db \<Rightarrow> string \<Rightarrow> error + 'db Pool option"
  CollectionGet :: "'db \<Rightarrow> string \<Rightarrow> string \<Rightarrow> error + metadata_Collection option"
  CollectionCreate :: "'db \<Rightarrow> string \<Rightarrow> string \<Rightarrow> error + bool \<times> 'db"

text \<open>The struct \<^verbatim>\<open>collection\<close>.\<close>

record 'db collection =
  r :: "'db Registry"
  dbName :: string
  name :: string

text \<open>The parameter and result structs of package \<^verbatim>\<open>backends\<close>, by the fields used.\<close>

record 'doc QueryParams =
  Filter :: "'doc option"
  Sort :: "'doc option"
  Limit :: int64
  OnlyRecordIDs :: bool
  Comment :: string

datatype queryIterator = newQueryIterator "Rows option" bool

record QueryResult =
  Iter :: queryIterator

record 'doc InsertAllParams =
  Docs :: "'doc list"

datatype InsertAllResult = InsertAllResult

record 'doc UpdateAllParams =
  Docs :: "'doc list"

record UpdateAllResult =
  Updated :: int32

record 'doc ExplainParams =
  Filter :: "'doc option"
  Sort :: "'doc option"
  Limit :: int64

record 'doc ExplainResult =
  QueryPlanner :: "'doc option"
  FilterPushdown :: bool
  SortPushdown :: bool
  LimitPushdown :: bool

record CollectionStatsParams =
  Refresh :: bool

datatype IndexSize = IndexSize string int64

record CollectionStatsResult =
  CountDocuments :: int64
  SizeTotal :: int64
  SizeIndexes :: int64
  SizeCollection :: int64
  SizeFreeStorage :: int64
  IndexSizes :: "IndexSize list"

record CompactParams =
  Full :: bool

datatype CompactResult = CompactResult

record IndexKeyPair =
  Field :: string
  Descending :: bool

record IndexInfo =
  Name :: string
  Unique :: bool
  Key :: "IndexKeyPair list"

record ListIndexesResult =
  Indexes :: "IndexInfo list"

text \<open>The struct \<^verbatim>\<open>selectParams\<close> and the struct \<^verbatim>\<open>stats\<close> of the package.\<close>

record selectParams =
  Schema :: string
  Table :: string
  Comment :: string
  Capped :: bool
  OnlyRecordIDs :: bool

record stats =
  countDocuments :: int64
  sizeIndexes :: int64
  sizeTables :: int64
  sizeFreeStorage :: int64

text \<open>
  The functions of this repository and of its libraries that the collection calls and
  that are not among the sources, as parameters: the clause compiler of the package
  (each \<^verbatim>\<open>prepare...\<close> function takes the placeholder counter and returns the advanced
  one), \<^verbatim>\<open>unmarshalExplain\<close>, \<^verbatim>\<open>collectionsStats\<close>, the \<^verbatim>\<open>sjson\<close> encoders,
  \<^verbatim>\<open>Document.Get\<close> (nil, here \<open>None\<close>, when the field is missing), the empty document
  of \<^verbatim>\<open>types.NewDocument()\<close>, \<^verbatim>\<open>pgx.Identifier.Sanitize\<close>, the column names of package
  \<^verbatim>\<open>metadata\<close>, the scan of an index-size row, and \<^verbatim>\<open>sort.Slice\<close>.
\<close>

record ('db, 'doc, 'val) helpers =
  prepareSelectClause :: "selectParams \<Rightarrow> string"
  prepareWhereClause :: "nat \<Rightarrow> 'doc option \<Rightarrow> error + (string \<times> any list) \<times> nat"
  prepareOrderByClause :: "nat \<Rightarrow> 'doc option \<Rightarrow> bool \<Rightarrow> (string \<times> any list) \<times> nat"
  prepareInsertStatement :: "string \<Rightarrow> string \<Rightarrow> bool \<Rightarrow> 'doc list \<Rightarrow> error + stmt"
  unmarshalExplain :: "bytes \<Rightarrow> error + 'doc"
  collectionsStats ::
    "'db Pool \<Rightarrow> 'db \<Rightarrow> string \<Rightarrow> metadata_Collection list \<Rightarrow> bool \<Rightarrow> error + stats"
  sjson_Marshal :: "'doc \<Rightarrow> error + bytes"
  sjson_MarshalSingleValue :: "'val \<Rightarrow> error + bytes"
  doc_Get :: "'doc \<Rightarrow> string \<Rightarrow> 'val option"
  NewDocument :: 'doc
  Sanitize :: "string list \<Rightarrow> string"
  DefaultColumn :: string
  IDColumn :: string
  Scan_name_size :: "row \<Rightarrow> raw_error + string \<times> int64"
  sort_Slice :: "(IndexInfo \<Rightarrow> IndexInfo \<Rightarrow> bool) \<Rightarrow> IndexInfo list \<Rightarrow> IndexInfo list"

text \<open>
  \<^verbatim>\<open>errors.As(err, &pgErr)\<close> follows the chain of wrapped errors to the first
  \<^verbatim>\<open>*pgconn.PgError\<close> and gives its code. \<^verbatim>\<open>pgerrcode.UniqueViolation\<close> is SQLSTATE 23505.
\<close>

primrec errors_As_PgError :: "raw_error \<Rightarrow> string option" where
  "errors_As_PgError (PgError code) = Some code"
| "errors_As_PgError (OtherError msg) = None"
| "errors_As_PgError (WrappedError msg e) = errors_As_PgError e"

definition UniqueViolation :: string where
  "UniqueViolation = ''23505''"

text \<open>The decimal digits of a number (\<^verbatim>\<open>strconv.Itoa\<close> on a number that is not negative).\<close>

function itoa :: "nat \<Rightarrow> string" where
  "itoa n =
     (if n < 10 then [''0123456789'' ! n] else itoa (n div 10) @ [''0123456789'' ! (n mod 10)])"
  by pat_completeness auto
termination
  by (relation "measure id") auto

declare itoa.simps [simp del]

text \<open>
  Modelled from the spec: \<^verbatim>\<open>metadata.Placeholder\<close> (not among the sources) is the
  placeholder generator of section 4.1: \<^verbatim>\<open>Next()\<close> returns the next positional marker
  of a sequence that starts at \<^verbatim>\<open>$1\<close> and has no gaps. The counter is the number of
  markers given out so far; the result is the marker and the advanced counter.
\<close>

definition Placeholder_Next :: "nat \<Rightarrow> string \<times> nat" where
  "Placeholder_Next p = (''$'' @ itoa (Suc p), Suc p)"

text \<open>
  Modelled from the spec: \<^verbatim>\<open>pool.InTransaction\<close> (not among the sources) is the
  transaction-scoping helper of sections 5 and 6: it runs the unit of work atomically
  against the database handle, and on every failing exit rolls back the uncommitted
  work of the call. The error of the unit of work is returned as it is; a failure to
  begin or to commit is returned wrapped. Beginning a transaction on a nil handle
  dereferences it, which panics. The value the unit of work leaves in the variables
  it captured is its result here.
\<close>

definition InTransaction ::
  "'db Pool option \<Rightarrow> ('db Pool \<Rightarrow> 'db engine \<Rightarrow> (failure + 'a) \<times> 'db engine) \<Rightarrow>
   'db engine \<Rightarrow> (failure + 'a) \<times> 'db engine" where
  "InTransaction p f s =
     (case p of
        None \<Rightarrow> (Inl (Panic ''nil pointer dereference''), s)
      | Some tx \<Rightarrow>
          (case Begin tx (store s) of
             Some err \<Rightarrow> (Inl (Err (LazyError (Raw err))), s)
           | None \<Rightarrow>
               (case f tx s of
                  (Inl e, s') \<Rightarrow> (Inl e, s'\<lparr>store := store s\<rparr>)
                | (Inr v, s') \<Rightarrow>
                    (case Commit tx (store s') of
                       Some err \<Rightarrow> (Inl (Err (LazyError (Raw err))), s'\<lparr>store := store s\<rparr>)
                     | None \<Rightarrow> (Inr v, s')))))"

text \<open>Sending a statement appends it, with the answer, to the log.\<close>

definition send :: "string \<Rightarrow> any list \<Rightarrow> reply \<Rightarrow> 'db engine \<Rightarrow> 'db engine" where
  "send q args a s = s\<lparr>sent := sent s @ [((q, args), a)]\<rparr>"

section \<open>Package postgresql: the collection\<close>

text \<open>\<^verbatim>\<open>collection.Query\<close>.\<close>

definition Query ::
  "('db, 'doc, 'val) helpers \<Rightarrow> 'db collection \<Rightarrow> 'doc QueryParams \<Rightarrow> 'db engine \<Rightarrow>
   (failure + QueryResult) \<times> 'db engine" where
  "Query h c params s =
     (case DatabaseGetExisting (r c) (store s) (dbName c) of
        Inl err \<Rightarrow> (Inl (Err (LazyError err)), s)
      | Inr None \<Rightarrow>
          (Inr \<lparr>Iter = newQueryIterator None (QueryParams.OnlyRecordIDs params)\<rparr>, s)
      | Inr (Some p) \<Rightarrow>
          (case CollectionGet (r c) (store s) (dbName c) (name c) of
             Inl err \<Rightarrow> (Inl (Err (LazyError err)), s)
           | Inr None \<Rightarrow>
               (Inr \<lparr>Iter = newQueryIterator None (QueryParams.OnlyRecordIDs params)\<rparr>, s)
           | Inr (Some meta) \<Rightarrow>
               (let q = prepareSelectClause h
                          \<lparr>Schema = dbName c,
                           Table = TableName meta,
                           Comment = QueryParams.Comment params,
                           Capped = metadata_Collection.Capped meta,
                           OnlyRecordIDs = QueryParams.OnlyRecordIDs params\<rparr>
                in case prepareWhereClause h 0 (QueryParams.Filter params) of
                     Inl err \<Rightarrow> (Inl (Err (LazyError err)), s)
                   | Inr ((where', args), placeholder) \<Rightarrow>
                       (let q = q @ where';
                            ((sort', sortArgs), placeholder) =
                               prepareOrderByClause h placeholder (QueryParams.Sort params)
                                 (metadata_Collection.Capped meta);
                            q = q @ sort';
                            args = args @ sortArgs;
                            (q, args) =
                               (if QueryParams.Limit params \<noteq> 0
                                then (q @ '' LIMIT '' @ fst (Placeholder_Next placeholder),
                                      args @ [AnyInt64 (QueryParams.Limit params)])
                                else (q, args))
                        in case Pool.Query p (store s) q args of
                             Inl err \<Rightarrow>
                               (Inl (Err (LazyError (Raw err))), send q args (Failed err) s)
                           | Inr rows \<Rightarrow>
                               (Inr \<lparr>Iter = newQueryIterator (Some rows)
                                              (QueryParams.OnlyRecordIDs params)\<rparr>,
                                send q args Returned s)))))"

text \<open>
  The loop of \<^verbatim>\<open>InsertAll\<close> inside the transaction: while documents are left, the
  first \<^verbatim>\<open>min(batchSize, len(docs))\<close> of them are cut off as the batch, one statement is
  prepared for the batch (\<open>prepared\<close> is the call of \<^verbatim>\<open>prepareInsertStatement\<close>) and
  executed. Reading \<^verbatim>\<open>meta.TableName\<close> through a nil \<^verbatim>\<open>meta\<close> panics.
\<close>

definition batchSize :: nat where
  "batchSize = 100"

definition prepared ::
  "('db, 'doc, 'val) helpers \<Rightarrow> 'db collection \<Rightarrow> metadata_Collection \<Rightarrow> 'doc list \<Rightarrow>
   error + stmt" where
  "prepared h c m batch =
     prepareInsertStatement h (dbName c) (TableName m) (metadata_Collection.Capped m) batch"

function insertBatches ::
  "('db, 'doc, 'val) helpers \<Rightarrow> 'db collection \<Rightarrow> metadata_Collection option \<Rightarrow> 'db Pool \<Rightarrow>
   'doc list \<Rightarrow> 'db engine \<Rightarrow> (failure + unit) \<times> 'db engine" where
  "insertBatches h c meta tx docs s =
     (if length docs > 0 then
        (let i = min batchSize (length docs);
             batch = take i docs;
             docs' = drop i docs
         in case meta of
              None \<Rightarrow> (Inl (Panic ''nil pointer dereference''), s)
            | Some m \<Rightarrow>
                (case prepared h c m batch of
                   Inl err \<Rightarrow> (Inl (Err (LazyError err)), s)
                 | Inr (q, args) \<Rightarrow>
                     (case Exec tx (store s) q args of
                        Inl err \<Rightarrow>
                          (if errors_As_PgError err = Some UniqueViolation
                           then (Inl (Err (BackendError ErrorCodeInsertDuplicateID (Raw err))),
                                 send q args (Failed err) s)
                           else (Inl (Err (LazyError (Raw err))), send q args (Failed err) s))
                      | Inr (tag, st) \<Rightarrow>
                          insertBatches h c meta tx docs'
                            (send q args (Affected tag) (s\<lparr>store := st\<rparr>)))))
      else (Inr (), s))"
  by pat_completeness auto
termination
  by (relation "measure (\<lambda>(h, c, meta, tx, docs, s). length docs)")
    (auto simp: batchSize_def)

declare insertBatches.simps [simp del]

text \<open>\<^verbatim>\<open>collection.InsertAll\<close>.\<close>

definition InsertAll ::
  "('db, 'doc, 'val) helpers \<Rightarrow> 'db collection \<Rightarrow> 'doc InsertAllParams \<Rightarrow> 'db engine \<Rightarrow>
   (failure + InsertAllResult) \<times> 'db engine" where
  "InsertAll h c params s =
     (case CollectionCreate (r c) (store s) (dbName c) (name c) of
        Inl err \<Rightarrow> (Inl (Err (LazyError err)), s)
      | Inr (created, st) \<Rightarrow>
          (let s1 = s\<lparr>store := st\<rparr>
           in case DatabaseGetExisting (r c) (store s1) (dbName c) of
                Inl err \<Rightarrow> (Inl (Err (LazyError err)), s1)
              | Inr p \<Rightarrow>
                  (case CollectionGet (r c) (store s1) (dbName c) (name c) of
                     Inl err \<Rightarrow> (Inl (Err (LazyError err)), s1)
                   | Inr meta \<Rightarrow>
                       (case InTransaction p
                               (\<lambda>tx. insertBatches h c meta tx (InsertAllParams.Docs params)) s1 of
                          (Inl e, s2) \<Rightarrow> (Inl e, s2)
                        | (Inr u, s2) \<Rightarrow> (Inr InsertAllResult, s2)))))"

text \<open>
  The loop of \<^verbatim>\<open>UpdateAll\<close> inside the transaction, with \<^verbatim>\<open>res.Updated\<close> as the
  accumulator. \<^verbatim>\<open>must.NotBeZero(id)\<close> panics on a nil identifier and \<^verbatim>\<open>must.NotFail\<close>
  on an encoding error. \<^verbatim>\<open>int32(tag.RowsAffected())\<close> keeps the low 32 bits.
\<close>

fun updateDocs ::
  "('db, 'doc, 'val) helpers \<Rightarrow> string \<Rightarrow> 'db Pool \<Rightarrow> 'doc list \<Rightarrow> int32 \<Rightarrow> 'db engine \<Rightarrow>
   (failure + int32) \<times> 'db engine" where
  "updateDocs h q tx [] updated s = (Inr updated, s)"
| "updateDocs h q tx (doc # docs) updated s =
     (case sjson_Marshal h doc of
        Inl err \<Rightarrow> (Inl (Err (LazyError err)), s)
      | Inr b \<Rightarrow>
          (case doc_Get h doc ''_id'' of
             None \<Rightarrow> (Inl (Panic ''v has zero value''), s)
           | Some id' \<Rightarrow>
               (case sjson_MarshalSingleValue h id' of
                  Inl err \<Rightarrow> (Inl (Panic ''must.NotFail''), s)
                | Inr arg \<Rightarrow>
                    (case Exec tx (store s) q [AnyBytes b, AnyBytes arg] of
                       Inl err \<Rightarrow>
                         (Inl (Err (LazyError (Raw err))),
                          send q [AnyBytes b, AnyBytes arg] (Failed err) s)
                     | Inr (tag, st) \<Rightarrow>
                         updateDocs h q tx docs (updated + ucast tag)
                           (send q [AnyBytes b, AnyBytes arg] (Affected tag)
                              (s\<lparr>store := st\<rparr>))))))"

text \<open>\<^verbatim>\<open>collection.UpdateAll\<close>; \<open>update_query\<close> is its statement text.\<close>

definition update_query ::
  "('db, 'doc, 'val) helpers \<Rightarrow> 'db collection \<Rightarrow> metadata_Collection \<Rightarrow> string" where
  "update_query h c meta =
     ''UPDATE '' @ Sanitize h [dbName c, TableName meta] @ '' SET '' @ DefaultColumn h @
     '' = $1 WHERE '' @ IDColumn h @ '' = $2''"

definition UpdateAll ::
  "('db, 'doc, 'val) helpers \<Rightarrow> 'db collection \<Rightarrow> 'doc UpdateAllParams \<Rightarrow> 'db engine \<Rightarrow>
   (failure + UpdateAllResult) \<times> 'db engine" where
  "UpdateAll h c params s =
     (case DatabaseGetExisting (r c) (store s) (dbName c) of
        Inl err \<Rightarrow> (Inl (Err (LazyError err)), s)
      | Inr None \<Rightarrow> (Inr \<lparr>Updated = 0\<rparr>, s)
      | Inr (Some p) \<Rightarrow>
          (case CollectionGet (r c) (store s) (dbName c) (name c) of
             Inl err \<Rightarrow> (Inl (Err (LazyError err)), s)
           | Inr None \<Rightarrow> (Inr \<lparr>Updated = 0\<rparr>, s)
           | Inr (Some meta) \<Rightarrow>
               (let q = update_query h c meta
                in case InTransaction (Some p)
                          (\<lambda>tx. updateDocs h q tx (UpdateAllParams.Docs params) 0) s of
                     (Inl (Err err), s') \<Rightarrow> (Inl (Err (LazyError err)), s')
                   | (Inl (Panic msg), s') \<Rightarrow> (Inl (Panic msg), s')
                   | (Inr updated, s') \<Rightarrow> (Inr \<lparr>Updated = updated\<rparr>, s'))))"

text \<open>
  \<^verbatim>\<open>collection.Explain\<close>. The result \<^verbatim>\<open>res\<close> starts as the zero value and is filled in
  as the statement is built.
\<close>

definition Explain ::
  "('db, 'doc, 'val) helpers \<Rightarrow> 'db collection \<Rightarrow> 'doc ExplainParams \<Rightarrow> 'db engine \<Rightarrow>
   (failure + 'doc ExplainResult) \<times> 'db engine" where
  "Explain h c params s =
     (case DatabaseGetExisting (r c) (store s) (dbName c) of
        Inl err \<Rightarrow>
          (Inr \<lparr>QueryPlanner = Some (NewDocument h), FilterPushdown = False,
                SortPushdown = False, LimitPushdown = False\<rparr>, s)
      | Inr None \<Rightarrow>
          (Inr \<lparr>QueryPlanner = Some (NewDocument h), FilterPushdown = False,
                SortPushdown = False, LimitPushdown = False\<rparr>, s)
      | Inr (Some p) \<Rightarrow>
          (case CollectionGet (r c) (store s) (dbName c) (name c) of
             Inl err \<Rightarrow> (Inl (Err (LazyError err)), s)
           | Inr None \<Rightarrow>
               (Inr \<lparr>QueryPlanner = Some (NewDocument h), FilterPushdown = False,
                     SortPushdown = False, LimitPushdown = False\<rparr>, s)
           | Inr (Some meta) \<Rightarrow>
               (let res = \<lparr>QueryPlanner = None, FilterPushdown = False,
                           SortPushdown = False, LimitPushdown = False\<rparr>;
                    opts = \<lparr>Schema = dbName c,
                            Table = TableName meta,
                            Comment = [],
                            Capped = metadata_Collection.Capped meta,
                            OnlyRecordIDs = False\<rparr>;
                    q = ''EXPLAIN (VERBOSE true, FORMAT JSON) '' @ prepareSelectClause h opts
                in case prepareWhereClause h 0 (ExplainParams.Filter params) of
                     Inl err \<Rightarrow> (Inl (Err (LazyError err)), s)
                   | Inr ((where', args), placeholder) \<Rightarrow>
                       (let res = res\<lparr>FilterPushdown := where' \<noteq> []\<rparr>;
                            q = q @ where';
                            ((sort', sortArgs), placeholder) =
                               prepareOrderByClause h placeholder (ExplainParams.Sort params)
                                 (metadata_Collection.Capped meta);
                            q = q @ sort';
                            args = args @ sortArgs;
                            res = res\<lparr>SortPushdown := sort' \<noteq> []\<rparr>;
                            (q, args, res) =
                               (if ExplainParams.Limit params \<noteq> 0
                                then (q @ '' LIMIT '' @ fst (Placeholder_Next placeholder),
                                      args @ [AnyInt64 (ExplainParams.Limit params)],
                                      res\<lparr>LimitPushdown := True\<rparr>)
                                else (q, args, res))
                        in case QueryRow_Scan p (store s) q args of
                             Inl err \<Rightarrow>
                               (Inl (Err (LazyError (Raw err))), send q args (Failed err) s)
                           | Inr b \<Rightarrow>
                               (case unmarshalExplain h b of
                                  Inl err \<Rightarrow> (Inl (Err (LazyError err)), send q args Returned s)
                                | Inr queryPlan \<Rightarrow>
                                    (Inr (res\<lparr>QueryPlanner := Some queryPlan\<rparr>),
                                     send q args Returned s))))))"

text \<open>
  \<^verbatim>\<open>collection.Stats\<close>. The map \<^verbatim>\<open>indexMap\<close> takes the engine's index name to the
  logical one, a later index of the metadata overwriting an earlier one of the same
  engine name. The loop over the rows fills \<^verbatim>\<open>indexSizes\<close>, which was made with one
  zero entry per key of the map, at the running position \<^verbatim>\<open>i\<close>; a write past its end
  panics. The text of the statement is given with its white space collapsed.
\<close>

definition indexMap_of :: "metadata_IndexInfo list \<Rightarrow> string \<rightharpoonup> string" where
  "indexMap_of idxs = map_of (rev (map (\<lambda>index. (PgIndex index, metadata_IndexInfo.Name index)) idxs))"

definition indexMap_len :: "metadata_IndexInfo list \<Rightarrow> nat" where
  "indexMap_len idxs = length (remdups (map PgIndex idxs))"

fun scanIndexSizes ::
  "('db, 'doc, 'val) helpers \<Rightarrow> (string \<rightharpoonup> string) \<Rightarrow> row list \<Rightarrow> IndexSize list \<Rightarrow> nat \<Rightarrow>
   failure + IndexSize list" where
  "scanIndexSizes h indexMap [] indexSizes i = Inr indexSizes"
| "scanIndexSizes h indexMap (row # rows) indexSizes i =
     (case Scan_name_size h row of
        Inl err \<Rightarrow> Inl (Err (LazyError (Raw err)))
      | Inr (name', size') \<Rightarrow>
          (case indexMap name' of
             None \<Rightarrow> scanIndexSizes h indexMap rows indexSizes i
           | Some indexName \<Rightarrow>
               if i < length indexSizes
               then scanIndexSizes h indexMap rows
                      (indexSizes[i := IndexSize indexName size']) (Suc i)
               else Inl (Panic ''index out of range'')))"

definition Stats ::
  "('db, 'doc, 'val) helpers \<Rightarrow> 'db collection \<Rightarrow> CollectionStatsParams \<Rightarrow> 'db engine \<Rightarrow>
   (failure + CollectionStatsResult) \<times> 'db engine" where
  "Stats h c params s =
     (case DatabaseGetExisting (r c) (store s) (dbName c) of
        Inl err \<Rightarrow> (Inl (Err (LazyError err)), s)
      | Inr None \<Rightarrow>
          (Inl (Err (BackendError ErrorCodeCollectionDoesNotExist
             (LazyErrorf (''no ns '' @ dbName c @ ''.'' @ name c)))), s)
      | Inr (Some p) \<Rightarrow>
          (case CollectionGet (r c) (store s) (dbName c) (name c) of
             Inl err \<Rightarrow> (Inl (Err (LazyError err)), s)
           | Inr None \<Rightarrow>
               (Inl (Err (BackendError ErrorCodeCollectionDoesNotExist
                  (LazyErrorf (''no ns '' @ dbName c @ ''.'' @ name c)))), s)
           | Inr (Some coll) \<Rightarrow>
               (case collectionsStats h p (store s) (dbName c) [coll] (Refresh params) of
                  Inl err \<Rightarrow> (Inl (Err (LazyError err)), s)
                | Inr stats \<Rightarrow>
                    (let indexMap = indexMap_of (metadata_Collection.Indexes coll);
                         q = ''SELECT indexname, pg_relation_size(quote_ident(schemaname)|| '' @
                             [CHR 0x27] @ ''.'' @ [CHR 0x27] @ '' || quote_ident(indexname), '' @
                             [CHR 0x27] @ ''main'' @ [CHR 0x27] @
                             '') FROM pg_indexes WHERE schemaname = $1 AND tablename IN ($2)'';
                         args = [AnyString (dbName c), AnyString (TableName coll)]
                     in case Pool.Query p (store s) q args of
                          Inl err \<Rightarrow>
                            (Inl (Err (LazyError (Raw err))), send q args (Failed err) s)
                        | Inr rows \<Rightarrow>
                            (let indexSizes =
                                   replicate (indexMap_len (metadata_Collection.Indexes coll))
                                     (IndexSize [] 0)
                             in case scanIndexSizes h indexMap (remaining rows) indexSizes 0 of
                                  Inl e \<Rightarrow> (Inl e, send q args Returned s)
                                | Inr indexSizes \<Rightarrow>
                                    (case Err_after rows of
                                       Some err \<Rightarrow>
                                         (Inl (Err (LazyError (Raw err))), send q args Returned s)
                                     | None \<Rightarrow>
                                         (Inr \<lparr>CountDocuments = countDocuments stats,
                                               SizeTotal = sizeTables stats + sizeIndexes stats,
                                               SizeIndexes = sizeIndexes stats,
                                               SizeCollection = sizeTables stats,
                                               SizeFreeStorage = sizeFreeStorage stats,
                                               IndexSizes = indexSizes\<rparr>,
                                          send q args Returned s)))))))"

text \<open>\<^verbatim>\<open>collection.Compact\<close>; \<^verbatim>\<open>params\<close> may be nil.\<close>

definition Compact ::
  "('db, 'doc, 'val) helpers \<Rightarrow> 'db collection \<Rightarrow> CompactParams option \<Rightarrow> 'db engine \<Rightarrow>
   (failure + CompactResult) \<times> 'db engine" where
  "Compact h c params s =
     (case DatabaseGetExisting (r c) (store s) (dbName c) of
        Inl err \<Rightarrow> (Inl (Err (LazyError err)), s)
      | Inr None \<Rightarrow>
          (Inl (Err (BackendError ErrorCodeDatabaseDoesNotExist
             (LazyErrorf (''no ns '' @ dbName c @ ''.'' @ name c)))), s)
      | Inr (Some db) \<Rightarrow>
          (case CollectionGet (r c) (store s) (dbName c) (name c) of
             Inl err \<Rightarrow> (Inl (Err (LazyError err)), s)
           | Inr None \<Rightarrow>
               (Inl (Err (BackendError ErrorCodeCollectionDoesNotExist
                  (LazyErrorf (''no ns '' @ dbName c @ ''.'' @ name c)))), s)
           | Inr (Some coll) \<Rightarrow>
               (let q = (case params of
                           None \<Rightarrow> ''VACUUM ANALYZE ''
                         | Some ps \<Rightarrow>
                             if Full ps then ''VACUUM FULL ANALYZE '' else ''VACUUM ANALYZE '');
                    q = q @ Sanitize h [dbName c, TableName coll]
                in case Exec db (store s) q [] of
                     Inl err \<Rightarrow> (Inl (Err (LazyError (Raw err))), send q [] (Failed err) s)
                   | Inr (tag, st) \<Rightarrow>
                       (Inr CompactResult, send q [] (Affected tag) (s\<lparr>store := st\<rparr>)))))"

text \<open>
  \<^verbatim>\<open>collection.ListIndexes\<close>: the indexes of the metadata are copied field by field
  (the two nested loops, \<open>copy_indexes\<close>) and the copy is sorted with \<^verbatim>\<open>sort.Slice\<close> by
  the comparison of the names.
\<close>

definition copy_indexes :: "metadata_IndexInfo list \<Rightarrow> IndexInfo list" where
  "copy_indexes idxs =
     map (\<lambda>index.
            \<lparr>Name = metadata_IndexInfo.Name index,
             Unique = metadata_IndexInfo.Unique index,
             Key = map (\<lambda>key. \<lparr>Field = metadata_IndexKeyPair.Field key,
                                Descending = metadata_IndexKeyPair.Descending key\<rparr>)
                     (metadata_IndexInfo.Key index)\<rparr>)
         idxs"

definition ListIndexes ::
  "('db, 'doc, 'val) helpers \<Rightarrow> 'db collection \<Rightarrow> 'db engine \<Rightarrow>
   (failure + ListIndexesResult) \<times> 'db engine" where
  "ListIndexes h c s =
     (case DatabaseGetExisting (r c) (store s) (dbName c) of
        Inl err \<Rightarrow> (Inl (Err (LazyError err)), s)
      | Inr None \<Rightarrow>
          (Inl (Err (BackendError ErrorCodeCollectionDoesNotExist
             (LazyErrorf (''no ns '' @ dbName c @ ''.'' @ name c)))), s)
      | Inr (Some db) \<Rightarrow>
          (case CollectionGet (r c) (store s) (dbName c) (name c) of
             Inl err \<Rightarrow> (Inl (Err (LazyError err)), s)
           | Inr None \<Rightarrow>
               (Inl (Err (BackendError ErrorCodeCollectionDoesNotExist
                  (LazyErrorf (''no ns '' @ dbName c @ ''.'' @ name c)))), s)
           | Inr (Some coll) \<Rightarrow>
               (let indexes = copy_indexes (metadata_Collection.Indexes coll)
                in (Inr \<lparr>Indexes = sort_Slice h (\<lambda>a b. Name a < Name b) indexes\<rparr>, s))))"

section \<open>Package cursor\<close>

text \<open>
  \<^verbatim>\<open>NewParams\<close> as \<^verbatim>\<open>newCursor\<close> reads it. \<^verbatim>\<open>Iter\<close> is an interface value and may be nil.
\<close>

record 'it NewParams =
  Iter :: "'it option"
  DB :: string
  Collection :: string
  Username :: string
  ShowRecordID :: bool

text \<open>
  The struct \<^verbatim>\<open>Cursor\<close>. The channel \<^verbatim>\<open>closed\<close> is the flag whether it has been closed,
  \<^verbatim>\<open>closeOnce\<close> (a \<^verbatim>\<open>sync.Once\<close>) the flag whether \<^verbatim>\<open>Do\<close> has already run its
  function, \<^verbatim>\<open>token\<close> the identity of the resource token. The pointer \<^verbatim>\<open>r\<close> to the
  registry is the component \<open>directory\<close> of the state below.
\<close>

record 'it Cursor =
  created :: nat
  iter :: "'it option"
  token :: nat
  closed :: bool
  DB :: string
  Collection :: string
  Username :: string
  ID :: int64
  closeOnce :: bool
  showRecordID :: bool

text \<open>The four teardown side effects of \<^verbatim>\<open>Close\<close>, logged in the order they happen.\<close>

datatype 'it effect =
    IterClose 'it
  | RegistryDelete int64
  | ChanClose
  | Untrack nat

text \<open>
  What \<^verbatim>\<open>Close\<close> and \<^verbatim>\<open>Next\<close> read and write: the cursor itself, the identifiers
  in the registry's directory, the tokens the resource tracker holds, and the log of
  teardown effects.
\<close>

record 'it world =
  cursor :: "'it Cursor"
  directory :: "int64 set"
  tracked :: "nat set"
  effects :: "'it effect list"

text \<open>
  Modelled from the spec: \<^verbatim>\<open>resource.Track\<close> and \<^verbatim>\<open>resource.Untrack\<close> (package
  \<^verbatim>\<open>resource\<close> is not among the sources) are the ledger of section 9: a token is
  registered at creation and deregistered at close.
\<close>

definition resource_Track :: "nat \<Rightarrow> nat set \<Rightarrow> nat set" where
  "resource_Track tok ts = insert tok ts"

definition resource_Untrack :: "nat \<Rightarrow> nat set \<Rightarrow> nat set" where
  "resource_Untrack tok ts = ts - {tok}"

text \<open>
  Modelled from the spec: \<^verbatim>\<open>Registry.delete\<close> (registry.go is not among the sources)
  removes the cursor from the directory, which is keyed by the cursor's identifier.
\<close>

definition Registry_delete :: "int64 \<Rightarrow> int64 set \<Rightarrow> int64 set" where
  "Registry_delete i d = d - {i}"

text \<open>
  \<^verbatim>\<open>newCursor(id, params, r)\<close>. The clock reading and the fresh token are arguments.
  The result is the cursor and the tracker after \<^verbatim>\<open>resource.Track\<close>.
\<close>

definition newCursor ::
  "nat \<Rightarrow> nat \<Rightarrow> int64 \<Rightarrow> 'it NewParams \<Rightarrow> nat set \<Rightarrow> 'it Cursor \<times> nat set" where
  "newCursor now tok i params ts =
     (\<lparr>created = now,
       iter = Iter params,
       token = tok,
       closed = False,
       DB = NewParams.DB params,
       Collection = NewParams.Collection params,
       Username = NewParams.Username params,
       ID = i,
       closeOnce = False,
       showRecordID = ShowRecordID params\<rparr>,
      resource_Track tok ts)"

text \<open>
  The methods of the wrapped \<^verbatim>\<open>types.DocumentsIterator\<close> and of \<^verbatim>\<open>types.Document\<close>
  that \<^verbatim>\<open>Next\<close> calls: the inner \<^verbatim>\<open>Next\<close> returns a document (or nil), an error (or
  nil) and the advanced iterator.
\<close>

record ('it, 'doc) iface =
  it_Next :: "'it \<Rightarrow> ('doc option \<times> error option) \<times> 'it"
  doc_RecordID :: "'doc \<Rightarrow> int64"
  doc_Set :: "'doc \<Rightarrow> string \<Rightarrow> int64 \<Rightarrow> 'doc"

text \<open>
  \<^verbatim>\<open>Cursor.Next\<close>. Calling a method on the nil interface \<^verbatim>\<open>c.iter\<close> panics.
\<close>

definition Next ::
  "('it, 'doc) iface \<Rightarrow> 'it world \<Rightarrow> (failure + 'doc option \<times> error option) \<times> 'it world" where
  "Next ops w =
     (let c = cursor w in
      case iter c of
        None \<Rightarrow> (Inl (Panic ''nil pointer dereference''), w)
      | Some it \<Rightarrow>
          (let ((doc, err), it') = it_Next ops it;
               doc' = (case doc of
                         None \<Rightarrow> None
                       | Some d \<Rightarrow>
                           if showRecordID c
                           then Some (doc_Set ops d ''$recordId'' (doc_RecordID ops d))
                           else Some d)
           in (Inr (doc', err), w\<lparr>cursor := c\<lparr>iter := Some it'\<rparr>\<rparr>)))"

text \<open>
  The function \<^verbatim>\<open>Close\<close> hands to \<^verbatim>\<open>closeOnce.Do\<close>, statement by statement. Closing a
  channel that is already closed panics.
\<close>

definition teardown :: "'it world \<Rightarrow> (failure + unit) \<times> 'it world" where
  "teardown w =
     (let c = cursor w in
      case iter c of
        None \<Rightarrow> (Inl (Panic ''nil pointer dereference''), w)
      | Some it \<Rightarrow>
          (let w1 = w\<lparr>cursor := c\<lparr>iter := None\<rparr>, effects := effects w @ [IterClose it]\<rparr>;
               w2 = w1\<lparr>directory := Registry_delete (ID c) (directory w1),
                       effects := effects w1 @ [RegistryDelete (ID c)]\<rparr>
           in if closed c
              then (Inl (Panic ''close of closed channel''), w2)
              else
                (let w3 = w2\<lparr>cursor := (cursor w2)\<lparr>closed := True\<rparr>,
                             effects := effects w2 @ [ChanClose]\<rparr>;
                     w4 = w3\<lparr>tracked := resource_Untrack (token c) (tracked w3),
                             effects := effects w3 @ [Untrack (token c)]\<rparr>
                 in (Inr (), w4))))"

text \<open>
  \<^verbatim>\<open>Cursor.Close\<close>: \<^verbatim>\<open>sync.Once.Do\<close> runs the function unless it has run before, and
  counts it as run also when it panics.
\<close>

definition Close :: "'it world \<Rightarrow> (failure + unit) \<times> 'it world" where
  "Close w =
     (if closeOnce (cursor w) then (Inr (), w)
      else
        (let (res, w') = teardown w
         in (res, w'\<lparr>cursor := (cursor w')\<lparr>closeOnce := True\<rparr>\<rparr>)))"

text \<open>A sequence of \<open>n\<close> invocations of \<^verbatim>\<open>Close\<close>, with what each returned.\<close>

fun Close_times :: "nat \<Rightarrow> 'it world \<Rightarrow> (failure + unit) list \<times> 'it world" where
  "Close_times 0 w = ([], w)"
| "Close_times (Suc n) w =
     (let (res, w1) = Close w;
          (rest, w2) = Close_times n w1
      in (res # rest, w2))"

section \<open>Notions the properties are stated with\<close>

text \<open>
  The namespace of a collection is absent when the registry reports no database of
  that name or, in an existing database, no collection of that name; it exists when
  the registry returns a pool handle and the metadata.
\<close>

definition namespace_absent :: "'db collection \<Rightarrow> 'db engine \<Rightarrow> bool" where
  "namespace_absent c s =
     (case DatabaseGetExisting (r c) (store s) (dbName c) of
        Inl err \<Rightarrow> False
      | Inr None \<Rightarrow> True
      | Inr (Some p) \<Rightarrow>
          (case CollectionGet (r c) (store s) (dbName c) (name c) of
             Inl err \<Rightarrow> False
           | Inr None \<Rightarrow> True
           | Inr (Some meta) \<Rightarrow> False))"

definition namespace_existing ::
  "'db collection \<Rightarrow> 'db engine \<Rightarrow> 'db Pool \<Rightarrow> metadata_Collection \<Rightarrow> bool" where
  "namespace_existing c s p meta =
     (DatabaseGetExisting (r c) (store s) (dbName c) = Inr (Some p) \<and>
      CollectionGet (r c) (store s) (dbName c) (name c) = Inr (Some meta))"

text \<open>
  The slices the loop of \<^verbatim>\<open>InsertAll\<close> cuts off its document list, in order
  (\<^verbatim>\<open>i := min(batchSize, len(docs)); batch, docs = docs[:i], docs[i:]\<close>).
\<close>

function batches :: "'a list \<Rightarrow> 'a list list" where
  "batches docs =
     (if length docs > 0
      then take (min batchSize (length docs)) docs #
           batches (drop (min batchSize (length docs)) docs)
      else [])"
  by pat_completeness auto
termination
  by (relation "measure length") (auto simp: batchSize_def)

declare batches.simps [simp del]

text \<open>
  The error the loop of \<^verbatim>\<open>InsertAll\<close> returns for a failed \<^verbatim>\<open>tx.Exec\<close>, and the loop
  run over a list of batches: its result, the contents it leaves and the entries it
  logs.
\<close>

definition duplicate_or_wrapped :: "raw_error \<Rightarrow> error" where
  "duplicate_or_wrapped err =
     (if errors_As_PgError err = Some UniqueViolation
      then BackendError ErrorCodeInsertDuplicateID (Raw err)
      else LazyError (Raw err))"

fun runBatches ::
  "('db, 'doc, 'val) helpers \<Rightarrow> 'db collection \<Rightarrow> metadata_Collection \<Rightarrow> 'db Pool \<Rightarrow>
   'doc list list \<Rightarrow> 'db \<Rightarrow> (failure + unit) \<times> 'db \<times> (stmt \<times> reply) list" where
  "runBatches h c m tx [] st = (Inr (), st, [])"
| "runBatches h c m tx (b # bs) st =
     (case prepared h c m b of
        Inl err \<Rightarrow> (Inl (Err (LazyError err)), st, [])
      | Inr (q, args) \<Rightarrow>
          (case Exec tx st q args of
             Inl err \<Rightarrow> (Inl (Err (duplicate_or_wrapped err)), st, [((q, args), Failed err)])
           | Inr (tag, st') \<Rightarrow>
               (case runBatches h c m tx bs st' of
                  (res, st'', new) \<Rightarrow> (res, st'', ((q, args), Affected tag) # new))))"

text \<open>
  The statement \<^verbatim>\<open>UpdateAll\<close> sends for a document, when the document and its
  identifier can be encoded, and the rows a logged answer reports as affected.
\<close>

definition update_stmt :: "('db, 'doc, 'val) helpers \<Rightarrow> string \<Rightarrow> 'doc \<Rightarrow> stmt option" where
  "update_stmt h q doc =
     (case sjson_Marshal h doc of
        Inl err \<Rightarrow> None
      | Inr b \<Rightarrow>
          (case doc_Get h doc ''_id'' of
             None \<Rightarrow> None
           | Some v \<Rightarrow>
               (case sjson_MarshalSingleValue h v of
                  Inl err \<Rightarrow> None
                | Inr arg \<Rightarrow> Some (q, [AnyBytes b, AnyBytes arg]))))"

definition affected :: "reply \<Rightarrow> int64" where
  "affected a = (case a of Affected tag \<Rightarrow> tag | _ \<Rightarrow> 0)"

text \<open>
  What \<^verbatim>\<open>sort.Slice\<close> promises for a comparison \<open>lt\<close>: the result is a rearrangement
  of the slice in which no element is less than an earlier one.
\<close>

definition sorts_by ::
  "(('a \<Rightarrow> 'a \<Rightarrow> bool) \<Rightarrow> 'a list \<Rightarrow> 'a list) \<Rightarrow> ('a \<Rightarrow> 'a \<Rightarrow> bool) \<Rightarrow> bool" where
  "sorts_by srt lt =
     (\<forall>xs. sorted_wrt (\<lambda>a b. \<not> lt b a) (srt lt xs) \<and> mset (srt lt xs) = mset xs)"

section \<open>A small engine for the examples\<close>

text \<open>
  Documents are numbers, a document being its own identifier; an identifier \<open>d\<close> is
  encoded as \<open>d\<close> bytes. The engine stores the identifiers of one table. An UPDATE
  reports how many stored identifiers equal its last argument; any other statement
  inserts the identifiers of its arguments and fails with SQLSTATE 23505 when one of
  them is already stored or occurs twice. The example sort is insertion sort.
\<close>

fun insert_by :: "('a \<Rightarrow> 'a \<Rightarrow> bool) \<Rightarrow> 'a \<Rightarrow> 'a list \<Rightarrow> 'a list" where
  "insert_by lt x [] = [x]"
| "insert_by lt x (y # ys) = (if lt x y then x # y # ys else y # insert_by lt x ys)"

definition insertion_sort :: "('a \<Rightarrow> 'a \<Rightarrow> bool) \<Rightarrow> 'a list \<Rightarrow> 'a list" where
  "insertion_sort lt xs = foldr (insert_by lt) xs []"

definition example_helpers :: "(nat list, nat, nat) helpers" where
  "example_helpers =
     \<lparr>prepareSelectClause = (\<lambda>sp. ''SELECT _jsonb FROM '' @ Schema sp @ ''.'' @ Table sp),
      prepareWhereClause =
        (\<lambda>ph f. case f of
                  None \<Rightarrow> Inr (([], []), ph)
                | Some d \<Rightarrow>
                    Inr (('' WHERE _id = '' @ fst (Placeholder_Next ph), [AnyInt64 (of_nat d)]),
                         snd (Placeholder_Next ph))),
      prepareOrderByClause =
        (\<lambda>ph f capped.
            case f of None \<Rightarrow> (([], []), ph) | Some d \<Rightarrow> (('' ORDER BY _id'', []), ph)),
      prepareInsertStatement =
        (\<lambda>schema table capped docs.
            Inr (''INSERT INTO '' @ schema @ ''.'' @ table,
                 map (\<lambda>d. AnyBytes (replicate d CHR ''i'')) docs)),
      unmarshalExplain = (\<lambda>b. Inr (length b)),
      collectionsStats =
        (\<lambda>p st db colls refresh.
            Inr \<lparr>countDocuments = of_nat (length st), sizeIndexes = 0, sizeTables = 0,
                 sizeFreeStorage = 0\<rparr>),
      sjson_Marshal = (\<lambda>d. Inr ''doc''),
      sjson_MarshalSingleValue = (\<lambda>v. Inr (replicate v CHR ''i'')),
      doc_Get = (\<lambda>d f. if f = ''_id'' then Some d else None),
      NewDocument = 0,
      Sanitize = (\<lambda>parts. case parts of [a, b] \<Rightarrow> a @ ''.'' @ b | _ \<Rightarrow> concat parts),
      DefaultColumn = ''_jsonb'',
      IDColumn = ''_id'',
      Scan_name_size =
        (\<lambda>row. case row of
                  [AnyString n, AnyInt64 z] \<Rightarrow> Inr (n, z)
                | _ \<Rightarrow> Inl (OtherError ''scan'')),
      sort_Slice = insertion_sort\<rparr>"

definition example_id :: "any \<Rightarrow> nat" where
  "example_id a = (case a of AnyBytes x \<Rightarrow> length x | _ \<Rightarrow> 0)"

definition example_pool :: "nat list Pool" where
  "example_pool =
     \<lparr>Begin = (\<lambda>st. None),
      Commit = (\<lambda>st. None),
      Exec =
        (\<lambda>st q args.
            if take 6 q = ''UPDATE''
            then Inr (of_nat (count_list st (example_id (last args))), st)
            else if distinct (map example_id args) \<and> set (map example_id args) \<inter> set st = {}
            then Inr (of_nat (length args), st @ map example_id args)
            else Inl (PgError ''23505'')),
      Query =
        (\<lambda>st q args.
            Inr \<lparr>remaining = map (\<lambda>i. [AnyInt64 (of_nat i)]) st, Err_after = None\<rparr>),
      QueryRow_Scan = (\<lambda>st q args. Inr ''plan'')\<rparr>"

definition example_meta :: metadata_Collection where
  "example_meta =
     \<lparr>TableName = ''coll_1'',
      metadata_Collection.Indexes =
        [\<lparr>metadata_IndexInfo.Name = ''b_idx'', PgIndex = ''pg_b'',
          metadata_IndexInfo.Key = [\<lparr>metadata_IndexKeyPair.Field = ''b'',
                                     metadata_IndexKeyPair.Descending = False\<rparr>],
          metadata_IndexInfo.Unique = False\<rparr>,
         \<lparr>metadata_IndexInfo.Name = ''a_idx'', PgIndex = ''pg_a'',
          metadata_IndexInfo.Key = [\<lparr>metadata_IndexKeyPair.Field = ''a'',
                                     metadata_IndexKeyPair.Descending = True\<rparr>],
          metadata_IndexInfo.Unique = True\<rparr>,
         \<lparr>metadata_IndexInfo.Name = ''c_idx'', PgIndex = ''pg_c'',
          metadata_IndexInfo.Key = [],
          metadata_IndexInfo.Unique = False\<rparr>],
      metadata_Collection.Capped = False\<rparr>"

text \<open>
  A registry that knows the database \<^verbatim>\<open>db\<close> and in it the collection \<^verbatim>\<open>coll\<close>, and one
  whose every call fails with an error of the engine.
\<close>

definition example_registry :: "nat list Registry" where
  "example_registry =
     \<lparr>DatabaseGetExisting = (\<lambda>st db. if db = ''db'' then Inr (Some example_pool) else Inr None),
      CollectionGet =
        (\<lambda>st db coll. if coll = ''coll'' then Inr (Some example_meta) else Inr None),
      CollectionCreate = (\<lambda>st db coll. Inr (False, st))\<rparr>"

definition failing_registry :: "nat list Registry" where
  "failing_registry =
     \<lparr>DatabaseGetExisting = (\<lambda>st db. Inl (Raw (OtherError ''connection refused''))),
      CollectionGet = (\<lambda>st db coll. Inl (Raw (OtherError ''connection refused''))),
      CollectionCreate = (\<lambda>st db coll. Inl (Raw (OtherError ''connection refused'')))\<rparr>"

text \<open>The same engine and registry, but every commit fails.\<close>

definition uncommitted_pool :: "nat list Pool" where
  "uncommitted_pool = example_pool\<lparr>Commit := (\<lambda>st. Some (OtherError ''commit failed''))\<rparr>"

definition uncommitted_registry :: "nat list Registry" where
  "uncommitted_registry =
     example_registry\<lparr>DatabaseGetExisting := (\<lambda>st db. Inr (Some uncommitted_pool))\<rparr>"

definition example_collection :: "string \<Rightarrow> string \<Rightarrow> nat list collection" where
  "example_collection db coll = \<lparr>r = example_registry, dbName = db, name = coll\<rparr>"

definition example_engine :: "nat list \<Rightarrow> nat list engine" where
  "example_engine st = \<lparr>store = st, sent = []\<rparr>"

text \<open>
  A cursor as \<^verbatim>\<open>Registry.NewCursor\<close> leaves it: made by \<^verbatim>\<open>newCursor\<close> around the
  iterator 5 with identifier 42 and token 7, and entered in the directory.
\<close>

definition example_world :: "nat world" where
  "example_world =
     (let (c, ts) =
            newCursor 0 7 42
              \<lparr>Iter = Some 5, DB = ''db'', Collection = ''coll'', Username = ''user'',
               ShowRecordID = True\<rparr> {}
      in \<lparr>cursor = c, directory = {42}, tracked = ts, effects = []\<rparr>)"

text \<open>
  An inner iterator for the example: it counts up to 8, a document being a number with
  the fields set on it.
\<close>

definition example_iface :: "(nat, nat \<times> (string \<times> int64) list) iface" where
  "example_iface =
     \<lparr>it_Next =
        (\<lambda>k. if k < 8 then ((Some (k, []), None), Suc k)
             else ((None, Some (Raw (OtherError ''iterator is read to the end''))), k)),
      doc_RecordID = (\<lambda>d. of_nat (fst d)),
      doc_Set = (\<lambda>d f v. (fst d, snd d @ [(f, v)]))\<rparr>"

section \<open>Cursor: properties\<close>

lemma Close_done: "closeOnce (cursor w) \<Longrightarrow> Close w = (Inr (), w)"
  by (simp add: Close_def)

lemma Close_times_done:
  "closeOnce (cursor w) \<Longrightarrow> Close_times n w = (replicate n (Inr ()), w)"
  by (induction n) (simp_all add: Close_done)

lemma Close_sets_done: "closeOnce (cursor (snd (Close w)))"
  by (simp add: Close_def split_beta)

lemma teardown_iter_None: "iter (cursor (snd (teardown w))) = None"
  by (simp add: teardown_def Let_def split: option.splits)

lemma Close_first_iter_None:
  "\<not> closeOnce (cursor w) \<Longrightarrow> iter (cursor (snd (Close w))) = None"
  using teardown_iter_None [of w] by (simp add: Close_def split_beta)

lemma Close_times_Suc:
  "Close_times (Suc n) w = (fst (Close w) # replicate n (Inr ()), snd (Close w))"
  using Close_times_done [OF Close_sets_done, of n w]
  by (simp add: split_beta)

lemma Close_open:
  assumes "iter (cursor w) = Some it" "\<not> closeOnce (cursor w)" "\<not> closed (cursor w)"
  shows "Close w =
    (Inr (),
     w\<lparr>cursor := (cursor w)\<lparr>iter := None, closed := True, closeOnce := True\<rparr>,
       directory := directory w - {ID (cursor w)},
       tracked := tracked w - {token (cursor w)},
       effects := effects w @
         [IterClose it, RegistryDelete (ID (cursor w)), ChanClose, Untrack (token (cursor w))]\<rparr>)"
  using assms
  by (simp add: Close_def teardown_def Let_def Registry_delete_def resource_Untrack_def)

lemma newCursor_open:
  "iter (fst (newCursor now tok i params ts)) = Iter params \<and>
   \<not> closeOnce (fst (newCursor now tok i params ts)) \<and>
   \<not> closed (fst (newCursor now tok i params ts)) \<and>
   ID (fst (newCursor now tok i params ts)) = i \<and>
   token (fst (newCursor now tok i params ts)) = tok \<and>
   tok \<in> snd (newCursor now tok i params ts)"
  by (simp add: newCursor_def resource_Track_def)

lemma example_world_simps:
  "iter (cursor example_world) = Some 5"
  "closeOnce (cursor example_world) = False"
  "closed (cursor example_world) = False"
  "ID (cursor example_world) = 42"
  "token (cursor example_world) = 7"
  "effects example_world = []"
  "directory example_world = {42}"
  "tracked example_world = {7}"
  by (simp_all add: example_world_def newCursor_def resource_Track_def)

text \<open>
  C5. On a cursor that wraps an iterator and has not been closed, the first \<^verbatim>\<open>Close\<close>
  returns normally and performs each of the four teardown effects once, in the order of
  the source: the inner iterator is released, the cursor leaves the registry's directory,
  the closed-signal channel is closed and the resource token is untracked. Every sequence
  of one or more \<^verbatim>\<open>Close\<close> invocations returns normally each time and ends in the state
  the first one left: the later ones change nothing, so the effect log holds the four
  effects exactly once.
\<close>

theorem Close_exactly_once:
  assumes "iter (cursor w) = Some it"
    and "\<not> closeOnce (cursor w)"
    and "\<not> closed (cursor w)"
  shows "Close_times (Suc n) w = (replicate (Suc n) (Inr ()), snd (Close w)) \<and>
    effects (snd (Close w)) =
      effects w @
        [IterClose it, RegistryDelete (ID (cursor w)), ChanClose, Untrack (token (cursor w))] \<and>
    iter (cursor (snd (Close w))) = None \<and>
    ID (cursor w) \<notin> directory (snd (Close w)) \<and>
    closed (cursor (snd (Close w))) \<and>
    token (cursor w) \<notin> tracked (snd (Close w)) \<and>
    Close (snd (Close w)) = (Inr (), snd (Close w))"
proof -
  note first = Close_open [OF assms]
  have later: "Close (snd (Close w)) = (Inr (), snd (Close w))"
    by (rule Close_done) (rule Close_sets_done)
  have "Close_times (Suc n) w = (replicate (Suc n) (Inr ()), snd (Close w))"
    unfolding Close_times_Suc by (simp add: first)
  with later show ?thesis
    by (simp add: first)
qed

theorem Close_exactly_once_witness:
  "iter (cursor example_world) = Some 5 \<and>
   \<not> closeOnce (cursor example_world) \<and>
   \<not> closed (cursor example_world) \<and>
   fst (Close_times 3 example_world) = [Inr (), Inr (), Inr ()] \<and>
   effects (snd (Close_times 3 example_world)) =
     [IterClose 5, RegistryDelete 42, ChanClose, Untrack 7] \<and>
   directory (snd (Close_times 3 example_world)) = {} \<and>
   tracked (snd (Close_times 3 example_world)) = {}"
proof -
  have three: "(3::nat) = Suc 2"
    by simp
  have open_: "iter (cursor example_world) = Some 5"
    "\<not> closeOnce (cursor example_world)" "\<not> closed (cursor example_world)"
    by (simp_all add: example_world_simps)
  have first: "snd (Close example_world) =
      example_world\<lparr>cursor := (cursor example_world)\<lparr>iter := None, closed := True, closeOnce := True\<rparr>,
        directory := {}, tracked := {},
        effects := [IterClose 5, RegistryDelete 42, ChanClose, Untrack 7]\<rparr>"
    by (simp add: Close_open [OF open_] example_world_simps)
  show ?thesis
    using Close_exactly_once [OF open_, of 2]
    by (simp only: three first) (simp add: example_world_simps numeral_2_eq_2)
qed

text \<open>
  C10. The first \<^verbatim>\<open>Close\<close> on a cursor leaves the inner iterator reference nil, and after
  any sequence of one or more \<^verbatim>\<open>Close\<close> invocations \<^verbatim>\<open>Next\<close> panics on the nil iterator:
  it returns neither an error value nor an end-of-sequence signal, and it leaves the
  state as it was.
\<close>

theorem Next_after_Close_panics:
  assumes "\<not> closeOnce (cursor w)"
  shows "iter (cursor (snd (Close w))) = None \<and>
    Next ops (snd (Close_times (Suc n) w)) =
      (Inl (Panic ''nil pointer dereference''), snd (Close_times (Suc n) w))"
proof -
  have nil: "iter (cursor (snd (Close w))) = None"
    using assms by (rule Close_first_iter_None)
  have "snd (Close_times (Suc n) w) = snd (Close w)"
    unfolding Close_times_Suc by simp
  with nil show ?thesis
    by (simp add: Next_def)
qed

theorem Next_after_Close_panics_witness:
  "\<not> closeOnce (cursor example_world) \<and>
   fst (Next example_iface example_world) = Inr (Some (5, [(''$recordId'', 5)]), None) \<and>
   iter (cursor (snd (Close example_world))) = None \<and>
   fst (Next example_iface (snd (Close_times 2 example_world))) =
     Inl (Panic ''nil pointer dereference'')"
proof -
  have two: "(2::nat) = Suc 1"
    by simp
  have fresh: "\<not> closeOnce (cursor example_world)"
    by (simp add: example_world_simps)
  have before: "fst (Next example_iface example_world) =
      Inr (Some (5, [(''$recordId'', 5)]), None)"
    by (simp add: Next_def Let_def example_iface_def example_world_simps
        example_world_def newCursor_def)
  show ?thesis
    using Next_after_Close_panics [OF fresh, of example_iface 1] fresh before
    by (simp only: two) simp
qed

section \<open>The collection: absent and existing namespaces\<close>

lemma example_absent:
  "namespace_absent (example_collection ''db'' ''nope'') (example_engine st)"
  "namespace_absent (example_collection ''nodb'' ''coll'') (example_engine st)"
  by (simp_all add: namespace_absent_def example_collection_def example_registry_def)

lemma example_existing:
  "namespace_existing (example_collection ''db'' ''coll'') (example_engine st)
     example_pool example_meta"
  by (simp add: namespace_existing_def example_collection_def example_registry_def
      example_engine_def)

text \<open>
  C3. A \<^verbatim>\<open>Query\<close> on a namespace that does not exist (no such database, or no such
  collection in the database) succeeds: it returns the iterator that
  \<^verbatim>\<open>newQueryIterator\<close> makes of nil rows, an iterator over no rows, and sends no
  statement to the engine.
\<close>

theorem Query_absent_namespace:
  assumes "namespace_absent c s"
  shows "Query h c params s =
    (Inr \<lparr>QueryResult.Iter = newQueryIterator None (QueryParams.OnlyRecordIDs params)\<rparr>, s)"
  using assms
  by (simp add: namespace_absent_def Query_def split: sum.splits option.splits)

theorem Query_absent_namespace_witness:
  "namespace_absent (example_collection ''db'' ''nope'') (example_engine [1]) \<and>
   Query example_helpers (example_collection ''db'' ''nope'')
     \<lparr>QueryParams.Filter = Some 1, QueryParams.Sort = None, QueryParams.Limit = 0,
      QueryParams.OnlyRecordIDs = False, QueryParams.Comment = []\<rparr> (example_engine [1]) =
   (Inr \<lparr>QueryResult.Iter = newQueryIterator None False\<rparr>, example_engine [1]) \<and>
   namespace_absent (example_collection ''nodb'' ''coll'') (example_engine [1]) \<and>
   Query example_helpers (example_collection ''nodb'' ''coll'')
     \<lparr>QueryParams.Filter = Some 1, QueryParams.Sort = None, QueryParams.Limit = 0,
      QueryParams.OnlyRecordIDs = False, QueryParams.Comment = []\<rparr> (example_engine [1]) =
   (Inr \<lparr>QueryResult.Iter = newQueryIterator None False\<rparr>, example_engine [1]) \<and>
   fst (Query example_helpers (example_collection ''db'' ''coll'')
     \<lparr>QueryParams.Filter = Some 1, QueryParams.Sort = None, QueryParams.Limit = 0,
      QueryParams.OnlyRecordIDs = False, QueryParams.Comment = []\<rparr> (example_engine [1])) =
   Inr \<lparr>QueryResult.Iter =
          newQueryIterator (Some \<lparr>remaining = [[AnyInt64 1]], Err_after = None\<rparr>) False\<rparr>"
proof -
  have there: "fst (Query example_helpers (example_collection ''db'' ''coll'')
     \<lparr>QueryParams.Filter = Some 1, QueryParams.Sort = None, QueryParams.Limit = 0,
      QueryParams.OnlyRecordIDs = False, QueryParams.Comment = []\<rparr> (example_engine [1])) =
   Inr \<lparr>QueryResult.Iter =
          newQueryIterator (Some \<lparr>remaining = [[AnyInt64 1]], Err_after = None\<rparr>) False\<rparr>"
    by (simp add: Query_def Let_def example_collection_def example_registry_def
        example_engine_def example_helpers_def example_pool_def)
  have no_coll: "namespace_absent (example_collection ''db'' ''nope'') (example_engine [1])"
    by (rule example_absent)
  have no_db: "namespace_absent (example_collection ''nodb'' ''coll'') (example_engine [1])"
    by (rule example_absent)
  show ?thesis
    using Query_absent_namespace [OF no_coll, of example_helpers]
      Query_absent_namespace [OF no_db, of example_helpers] there no_coll no_db
    by simp
qed

text \<open>
  C4. \<^verbatim>\<open>Stats\<close>, \<^verbatim>\<open>Compact\<close> and \<^verbatim>\<open>ListIndexes\<close> on a namespace that does not exist
  return an error of a does-not-exist kind and never a success: \<^verbatim>\<open>Stats\<close> and
  \<^verbatim>\<open>ListIndexes\<close> report \<^verbatim>\<open>ErrorCodeCollectionDoesNotExist\<close>; \<^verbatim>\<open>Compact\<close> reports
  \<^verbatim>\<open>ErrorCodeDatabaseDoesNotExist\<close> when the database is missing and
  \<^verbatim>\<open>ErrorCodeCollectionDoesNotExist\<close> when the collection is. No statement is sent.
\<close>

theorem absent_namespace_reported:
  assumes "namespace_absent c s"
  shows "Stats h c sp s =
      (Inl (Err (BackendError ErrorCodeCollectionDoesNotExist
         (LazyErrorf (''no ns '' @ dbName c @ ''.'' @ name c)))), s) \<and>
    Compact h c cp s =
      (Inl (Err (BackendError
         (if DatabaseGetExisting (r c) (store s) (dbName c) = Inr None
          then ErrorCodeDatabaseDoesNotExist else ErrorCodeCollectionDoesNotExist)
         (LazyErrorf (''no ns '' @ dbName c @ ''.'' @ name c)))), s) \<and>
    ListIndexes h c s =
      (Inl (Err (BackendError ErrorCodeCollectionDoesNotExist
         (LazyErrorf (''no ns '' @ dbName c @ ''.'' @ name c)))), s)"
  using assms
  by (simp add: namespace_absent_def Stats_def Compact_def ListIndexes_def
      split: sum.splits option.splits)

theorem absent_namespace_reported_witness:
  "namespace_absent (example_collection ''nodb'' ''coll'') (example_engine [1]) \<and>
   Stats example_helpers (example_collection ''nodb'' ''coll'') \<lparr>Refresh = False\<rparr>
     (example_engine [1]) =
     (Inl (Err (BackendError ErrorCodeCollectionDoesNotExist (LazyErrorf ''no ns nodb.coll''))),
      example_engine [1]) \<and>
   Compact example_helpers (example_collection ''nodb'' ''coll'') None (example_engine [1]) =
     (Inl (Err (BackendError ErrorCodeDatabaseDoesNotExist (LazyErrorf ''no ns nodb.coll''))),
      example_engine [1]) \<and>
   ListIndexes example_helpers (example_collection ''nodb'' ''coll'') (example_engine [1]) =
     (Inl (Err (BackendError ErrorCodeCollectionDoesNotExist (LazyErrorf ''no ns nodb.coll''))),
      example_engine [1]) \<and>
   namespace_absent (example_collection ''db'' ''nope'') (example_engine [1]) \<and>
   Stats example_helpers (example_collection ''db'' ''nope'') \<lparr>Refresh = False\<rparr>
     (example_engine [1]) =
     (Inl (Err (BackendError ErrorCodeCollectionDoesNotExist (LazyErrorf ''no ns db.nope''))),
      example_engine [1]) \<and>
   Compact example_helpers (example_collection ''db'' ''nope'') None (example_engine [1]) =
     (Inl (Err (BackendError ErrorCodeCollectionDoesNotExist (LazyErrorf ''no ns db.nope''))),
      example_engine [1]) \<and>
   ListIndexes example_helpers (example_collection ''db'' ''nope'') (example_engine [1]) =
     (Inl (Err (BackendError ErrorCodeCollectionDoesNotExist (LazyErrorf ''no ns db.nope''))),
      example_engine [1])"
proof -
  have no_db: "namespace_absent (example_collection ''nodb'' ''coll'') (example_engine [1])"
    by (rule example_absent)
  have no_coll: "namespace_absent (example_collection ''db'' ''nope'') (example_engine [1])"
    by (rule example_absent)
  show ?thesis
    using absent_namespace_reported [OF no_db, of example_helpers "\<lparr>Refresh = False\<rparr>" None]
      absent_namespace_reported [OF no_coll, of example_helpers "\<lparr>Refresh = False\<rparr>" None]
      no_db no_coll
    by (simp add: example_collection_def example_registry_def)
qed

text \<open>
  C2. The closed evaluation below is the place where the code departs from the claim:
  with a registry whose \<^verbatim>\<open>DatabaseGetExisting\<close> fails, \<^verbatim>\<open>Query\<close>, \<^verbatim>\<open>Stats\<close>,
  \<^verbatim>\<open>Compact\<close> and \<^verbatim>\<open>ListIndexes\<close> return the error wrapped by \<^verbatim>\<open>lazyerrors.Error\<close>,
  and \<^verbatim>\<open>Explain\<close> returns a successful result with an empty query planner.
\<close>

theorem Explain_discards_registry_error:
  "Explain example_helpers \<lparr>r = failing_registry, dbName = ''db'', name = ''coll''\<rparr>
     \<lparr>ExplainParams.Filter = Some 1, ExplainParams.Sort = None, ExplainParams.Limit = 2\<rparr>
     (example_engine [1]) =
     (Inr \<lparr>QueryPlanner = Some 0, FilterPushdown = False, SortPushdown = False,
           LimitPushdown = False\<rparr>, example_engine [1]) \<and>
   Query example_helpers \<lparr>r = failing_registry, dbName = ''db'', name = ''coll''\<rparr>
     \<lparr>QueryParams.Filter = Some 1, QueryParams.Sort = None, QueryParams.Limit = 2,
      QueryParams.OnlyRecordIDs = False, QueryParams.Comment = []\<rparr> (example_engine [1]) =
     (Inl (Err (LazyError (Raw (OtherError ''connection refused'')))), example_engine [1]) \<and>
   Stats example_helpers \<lparr>r = failing_registry, dbName = ''db'', name = ''coll''\<rparr>
     \<lparr>Refresh = False\<rparr> (example_engine [1]) =
     (Inl (Err (LazyError (Raw (OtherError ''connection refused'')))), example_engine [1]) \<and>
   Compact example_helpers \<lparr>r = failing_registry, dbName = ''db'', name = ''coll''\<rparr>
     None (example_engine [1]) =
     (Inl (Err (LazyError (Raw (OtherError ''connection refused'')))), example_engine [1]) \<and>
   ListIndexes example_helpers \<lparr>r = failing_registry, dbName = ''db'', name = ''coll''\<rparr>
     (example_engine [1]) =
     (Inl (Err (LazyError (Raw (OtherError ''connection refused'')))), example_engine [1])"
  by (simp add: Explain_def Query_def Stats_def Compact_def ListIndexes_def
      failing_registry_def example_helpers_def)

text \<open>
  C8. When \<^verbatim>\<open>Explain\<close> on an existing namespace returns a result, the result reports
  the pushdown as the statement was built: \<^verbatim>\<open>FilterPushdown\<close> holds exactly when the
  WHERE fragment of \<^verbatim>\<open>prepareWhereClause\<close> is not empty, \<^verbatim>\<open>SortPushdown\<close> exactly when
  the ORDER BY fragment of \<^verbatim>\<open>prepareOrderByClause\<close> is not empty, and
  \<^verbatim>\<open>LimitPushdown\<close> exactly when the limit is not zero.
\<close>

theorem Explain_pushdown_flags:
  assumes "namespace_existing c s p meta"
    and "Explain h c params s = (Inr res, s')"
  shows "\<exists>where' args ph sort' sortArgs ph'.
    prepareWhereClause h 0 (ExplainParams.Filter params) = Inr ((where', args), ph) \<and>
    prepareOrderByClause h ph (ExplainParams.Sort params) (metadata_Collection.Capped meta) =
      ((sort', sortArgs), ph') \<and>
    FilterPushdown res = (where' \<noteq> []) \<and>
    SortPushdown res = (sort' \<noteq> []) \<and>
    LimitPushdown res = (ExplainParams.Limit params \<noteq> 0)"
  using assms
  by (auto simp: namespace_existing_def Explain_def Let_def
      split: sum.splits option.splits prod.splits if_splits)

lemma Explain_example:
  "Explain example_helpers (example_collection ''db'' ''coll'')
     \<lparr>ExplainParams.Filter = Some 1, ExplainParams.Sort = None, ExplainParams.Limit = 2\<rparr>
     (example_engine [1]) =
   (Inr \<lparr>QueryPlanner = Some 4, FilterPushdown = True, SortPushdown = False,
         LimitPushdown = True\<rparr>,
    \<lparr>store = [1],
     sent = [((''EXPLAIN (VERBOSE true, FORMAT JSON) SELECT _jsonb FROM db.coll_1'' @
               '' WHERE _id = $1 LIMIT $2'', [AnyInt64 1, AnyInt64 2]), Returned)]\<rparr>)"
  by (simp add: Explain_def Let_def example_collection_def example_registry_def
      example_engine_def example_helpers_def example_pool_def example_meta_def
      Placeholder_Next_def itoa.simps send_def)

theorem Explain_pushdown_flags_witness:
  "namespace_existing (example_collection ''db'' ''coll'') (example_engine [1])
     example_pool example_meta \<and>
   fst (Explain example_helpers (example_collection ''db'' ''coll'')
     \<lparr>ExplainParams.Filter = Some 1, ExplainParams.Sort = None, ExplainParams.Limit = 2\<rparr>
     (example_engine [1])) =
   Inr \<lparr>QueryPlanner = Some 4, FilterPushdown = True, SortPushdown = False,
        LimitPushdown = True\<rparr> \<and>
   prepareWhereClause example_helpers 0 (Some 1) = Inr (('' WHERE _id = $1'', [AnyInt64 1]), 1) \<and>
   prepareOrderByClause example_helpers 1 None False = (([], []), 1)"
proof -
  have clauses:
    "prepareWhereClause example_helpers 0 (Some 1) = Inr (('' WHERE _id = $1'', [AnyInt64 1]), 1)"
    "prepareOrderByClause example_helpers 1 None False = (([], []), 1)"
    by (simp_all add: example_helpers_def Placeholder_Next_def itoa.simps)
  have existing: "namespace_existing (example_collection ''db'' ''coll'') (example_engine [1])
      example_pool example_meta"
    by (rule example_existing)
  have result: "fst (Explain example_helpers (example_collection ''db'' ''coll'')
     \<lparr>ExplainParams.Filter = Some 1, ExplainParams.Sort = None, ExplainParams.Limit = 2\<rparr>
     (example_engine [1])) =
   Inr \<lparr>QueryPlanner = Some 4, FilterPushdown = True, SortPushdown = False,
        LimitPushdown = True\<rparr>"
    by (simp only: Explain_example fst_conv)
  show ?thesis
    using Explain_pushdown_flags [OF existing Explain_example] existing result clauses
    by blast
qed

section \<open>The collection: ListIndexes\<close>

lemma ListIndexes_existing:
  assumes "namespace_existing c s p coll"
  shows "ListIndexes h c s =
    (Inr \<lparr>Indexes = sort_Slice h (\<lambda>a b. Name a < Name b)
        (copy_indexes (metadata_Collection.Indexes coll))\<rparr>, s)"
  using assms by (simp add: namespace_existing_def ListIndexes_def)

lemma names_copy: "map Name (copy_indexes idxs) = map metadata_IndexInfo.Name idxs"
  by (simp add: copy_indexes_def comp_def)

lemma sorted_names:
  "sorted_wrt (\<lambda>a b. \<not> Name b < Name a) xs = sorted (map Name xs)"
  by (simp add: sorted_map not_less)

lemma sorted_perm_unique:
  fixes xs ys :: "('a::linorder) list"
  assumes "sorted xs" "mset xs = mset ys"
  shows "xs = sort ys"
  using assms by (metis properties_for_sort)

lemma mset_insert_by: "mset (insert_by lt x xs) = add_mset x (mset xs)"
  by (induction xs) simp_all

lemma set_insert_by: "set (insert_by lt x xs) = insert x (set xs)"
  by (induction xs) auto

lemma sorted_insert_by:
  fixes f :: "'a \<Rightarrow> 'b::linorder"
  assumes "sorted_wrt (\<lambda>a b. \<not> f b < f a) xs"
  shows "sorted_wrt (\<lambda>a b. \<not> f b < f a) (insert_by (\<lambda>a b. f a < f b) x xs)"
  using assms by (induction xs) (auto simp: set_insert_by)

lemma insertion_sort_sorts:
  fixes f :: "'a \<Rightarrow> 'b::linorder"
  shows "sorts_by insertion_sort (\<lambda>a b. f a < f b)"
proof -
  have "sorted_wrt (\<lambda>a b. \<not> f b < f a) (insertion_sort (\<lambda>a b. f a < f b) xs) \<and>
        mset (insertion_sort (\<lambda>a b. f a < f b) xs) = mset xs" for xs
    by (induction xs) (simp_all add: insertion_sort_def sorted_insert_by mset_insert_by)
  then show ?thesis
    by (simp add: sorts_by_def)
qed

text \<open>
  C9. On an existing namespace \<^verbatim>\<open>ListIndexes\<close> succeeds, and when \<^verbatim>\<open>sort.Slice\<close> keeps
  its promise for the comparison of the names, the returned indexes are sorted by name
  in ascending order, whatever the order of the metadata: they are a rearrangement of
  the copied metadata indexes. In particular, when the metadata names its indexes
  \<^verbatim>\<open>b_idx\<close>, \<^verbatim>\<open>a_idx\<close>, \<^verbatim>\<open>c_idx\<close> in this order, the result names them \<^verbatim>\<open>a_idx\<close>,
  \<^verbatim>\<open>b_idx\<close>, \<^verbatim>\<open>c_idx\<close>.
\<close>

theorem ListIndexes_sorted_by_name:
  assumes "namespace_existing c s p coll"
    and "sorts_by (sort_Slice h) (\<lambda>a b. Name a < Name b)"
  shows "\<exists>res. ListIndexes h c s = (Inr res, s) \<and>
    sorted (map Name (Indexes res)) \<and>
    mset (Indexes res) = mset (copy_indexes (metadata_Collection.Indexes coll)) \<and>
    (map metadata_IndexInfo.Name (metadata_Collection.Indexes coll) = [''b_idx'', ''a_idx'', ''c_idx''] \<longrightarrow>
     map Name (Indexes res) = [''a_idx'', ''b_idx'', ''c_idx''])"
proof -
  let ?xs = "copy_indexes (metadata_Collection.Indexes coll)"
  let ?ys = "sort_Slice h (\<lambda>a b. Name a < Name b) ?xs"
  have run: "ListIndexes h c s = (Inr \<lparr>Indexes = ?ys\<rparr>, s)"
    using assms(1) by (rule ListIndexes_existing)
  have srt: "sorted (map Name ?ys)" and perm: "mset ?ys = mset ?xs"
    using assms(2) by (simp_all add: sorts_by_def sorted_names)
  have ex: "map Name ?ys = [''a_idx'', ''b_idx'', ''c_idx'']"
    if "map metadata_IndexInfo.Name (metadata_Collection.Indexes coll) = [''b_idx'', ''a_idx'', ''c_idx'']"
  proof -
    have "mset (map Name ?ys) = mset (map Name ?xs)"
      using perm by (metis mset_map)
    then have "mset (map Name ?ys) = mset [''b_idx'', ''a_idx'', ''c_idx'']"
      using that by (simp only: names_copy)
    with srt have "map Name ?ys = sort [''b_idx'', ''a_idx'', ''c_idx'']"
      by (rule sorted_perm_unique)
    then show ?thesis by simp
  qed
  show ?thesis
    using run srt perm ex by simp
qed

theorem ListIndexes_sorted_by_name_witness:
  "namespace_existing (example_collection ''db'' ''coll'') (example_engine [])
     example_pool example_meta \<and>
   sorts_by (sort_Slice example_helpers) (\<lambda>a b. Name a < Name b) \<and>
   map metadata_IndexInfo.Name (metadata_Collection.Indexes example_meta) =
     [''b_idx'', ''a_idx'', ''c_idx''] \<and>
   ListIndexes example_helpers (example_collection ''db'' ''coll'') (example_engine []) =
     (Inr \<lparr>Indexes =
        [\<lparr>Name = ''a_idx'', Unique = True, Key = [\<lparr>Field = ''a'', Descending = True\<rparr>]\<rparr>,
         \<lparr>Name = ''b_idx'', Unique = False, Key = [\<lparr>Field = ''b'', Descending = False\<rparr>]\<rparr>,
         \<lparr>Name = ''c_idx'', Unique = False, Key = []\<rparr>]\<rparr>,
      example_engine [])"
proof -
  have existing: "namespace_existing (example_collection ''db'' ''coll'') (example_engine [])
      example_pool example_meta"
    by (rule example_existing)
  have contract: "sorts_by (sort_Slice example_helpers) (\<lambda>a b. Name a < Name b)"
    using insertion_sort_sorts [of Name] by (simp add: example_helpers_def)
  have names: "map metadata_IndexInfo.Name (metadata_Collection.Indexes example_meta) =
      [''b_idx'', ''a_idx'', ''c_idx'']"
    by (simp add: example_meta_def)
  have result: "ListIndexes example_helpers (example_collection ''db'' ''coll'') (example_engine []) =
     (Inr \<lparr>Indexes =
        [\<lparr>Name = ''a_idx'', Unique = True, Key = [\<lparr>Field = ''a'', Descending = True\<rparr>]\<rparr>,
         \<lparr>Name = ''b_idx'', Unique = False, Key = [\<lparr>Field = ''b'', Descending = False\<rparr>]\<rparr>,
         \<lparr>Name = ''c_idx'', Unique = False, Key = []\<rparr>]\<rparr>,
      example_engine [])"
    by (simp add: ListIndexes_def example_collection_def example_registry_def
        example_helpers_def example_meta_def example_engine_def insertion_sort_def
        copy_indexes_def)
  show ?thesis
    using ListIndexes_sorted_by_name [OF existing contract] existing contract names result
    by blast
qed

section \<open>The collection: InsertAll\<close>

lemma batches_Nil [simp]: "batches [] = []"
  by (simp add: batches.simps)

lemma batches_eq_Nil [simp]: "batches docs = [] \<longleftrightarrow> docs = []"
  by (subst batches.simps) simp

lemma concat_batches: "concat (batches docs) = docs"
  by (induction docs rule: batches.induct) (subst batches.simps, simp)

lemma batches_length:
  "b \<in> set (batches docs) \<Longrightarrow> 0 < length b \<and> length b \<le> batchSize"
proof (induction docs rule: batches.induct)
  case (1 docs)
  show ?case
  proof (cases "docs = []")
    case True
    with "1.prems" show ?thesis by simp
  next
    case False
    with "1.prems" have "b = take (min batchSize (length docs)) docs \<or>
        b \<in> set (batches (drop (min batchSize (length docs)) docs))"
      by (subst (asm) batches.simps) auto
    then show ?thesis
    proof
      assume "b = take (min batchSize (length docs)) docs"
      with False show ?thesis by (simp add: batchSize_def)
    next
      assume "b \<in> set (batches (drop (min batchSize (length docs)) docs))"
      with False "1.IH" show ?thesis by simp
    qed
  qed
qed

lemma batches_full:
  "b \<in> set (butlast (batches docs)) \<Longrightarrow> length b = batchSize"
proof (induction docs rule: batches.induct)
  case (1 docs)
  let ?i = "min batchSize (length docs)"
  show ?case
  proof (cases "docs = []")
    case True
    with "1.prems" show ?thesis by simp
  next
    case False
    then have unf: "batches docs = take ?i docs # batches (drop ?i docs)"
      by (subst batches.simps) simp
    show ?thesis
    proof (cases "drop ?i docs = []")
      case True
      with "1.prems" unf show ?thesis by simp
    next
      case rest: False
      then have full: "length (take ?i docs) = batchSize"
        by auto
      from "1.prems" unf rest
      have "b = take ?i docs \<or> b \<in> set (butlast (batches (drop ?i docs)))"
        by auto
      then show ?thesis
        using full "1.IH" False by auto
    qed
  qed
qed

lemma insertBatches_run:
  "insertBatches h c (Some m) tx docs s =
     (case runBatches h c m tx (batches docs) (store s) of
        (res, st, new) \<Rightarrow> (res, s\<lparr>store := st, sent := sent s @ new\<rparr>))"
proof (induction h c "Some m" tx docs s rule: insertBatches.induct)
  case (1 h c tx docs s)
  show ?case
  proof (cases "docs = []")
    case True
    then show ?thesis
      by (simp add: insertBatches.simps)
  next
    case False
    then have unf: "batches docs =
        take (min batchSize (length docs)) docs # batches (drop (min batchSize (length docs)) docs)"
      by (subst batches.simps) simp
    show ?thesis
      using False "1.hyps"
      by (subst insertBatches.simps)
        (auto simp: unf send_def Let_def duplicate_or_wrapped_def split: sum.splits prod.splits)
  qed
qed

lemma insertBatches_nil_meta:
  "insertBatches h c None tx docs s =
     (if docs = [] then (Inr (), s) else (Inl (Panic ''nil pointer dereference''), s))"
  by (subst insertBatches.simps) simp

lemma runBatches_stmts:
  "runBatches h c m tx bs st = (res, st', new) \<Longrightarrow>
   length new \<le> length bs \<and>
   map (Inr \<circ> fst) new = map (prepared h c m) (take (length new) bs)"
proof (induction bs arbitrary: st res st' new)
  case Nil
  then show ?case by simp
next
  case (Cons b bs)
  then show ?case
    by (auto split: sum.splits prod.splits)
qed

lemma runBatches_success:
  "runBatches h c m tx bs st = (Inr u, st', new) \<Longrightarrow>
   length new = length bs \<and> (\<forall>e\<in>set new. \<exists>tag. snd e = Affected tag)"
proof (induction bs arbitrary: st st' new)
  case Nil
  then show ?case by simp
next
  case (Cons b bs)
  then show ?case
    by (fastforce split: sum.splits prod.splits)
qed

lemma runBatches_failed:
  "runBatches h c m tx bs st = (res, st', new) \<Longrightarrow> (stmt, Failed err) \<in> set new \<Longrightarrow>
   res = Inl (Err (duplicate_or_wrapped err)) \<and>
   (\<exists>pre. new = pre @ [(stmt, Failed err)] \<and> (\<forall>e\<in>set pre. \<exists>tag. snd e = Affected tag))"
proof (induction bs arbitrary: st res st' new)
  case Nil
  then show ?case by simp
next
  case (Cons b bs)
  show ?case
  proof (cases "prepared h c m b")
    case (Inl e)
    with Cons.prems show ?thesis by simp
  next
    case (Inr qa)
    obtain q args where qa: "qa = (q, args)" by (cases qa)
    show ?thesis
    proof (cases "Exec tx st q args")
      case (Inl e)
      with Cons.prems Inr qa show ?thesis
        by (auto simp: duplicate_or_wrapped_def)
    next
      case ok: (Inr ts)
      obtain tag st1 where ts: "ts = (tag, st1)" by (cases ts)
      obtain res1 st2 new1 where rest: "runBatches h c m tx bs st1 = (res1, st2, new1)"
        by (cases "runBatches h c m tx bs st1")
      from Cons.prems(1) Inr qa ok ts rest
      have eqs: "res = res1" "new = ((q, args), Affected tag) # new1"
        by simp_all
      with Cons.prems(2) have "(stmt, Failed err) \<in> set new1"
        by simp
      from Cons.IH [OF rest this] obtain pre where
        "res1 = Inl (Err (duplicate_or_wrapped err))"
        "new1 = pre @ [(stmt, Failed err)]" "\<forall>e\<in>set pre. \<exists>tag. snd e = Affected tag"
        by blast
      then show ?thesis
        using eqs by (intro conjI exI [of _ "((q, args), Affected tag) # pre"]) simp_all
    qed
  qed
qed


lemma InsertAll_no_statement:
  assumes "InsertAll h c params s = (res, s')"
    and "\<not> (\<exists>cr st p m. CollectionCreate (r c) (store s) (dbName c) (name c) = Inr (cr, st) \<and>
           DatabaseGetExisting (r c) st (dbName c) = Inr (Some p) \<and>
           CollectionGet (r c) st (dbName c) (name c) = Inr (Some m) \<and>
           Begin p st = None)"
  shows "sent s' = sent s \<and> (res = Inr InsertAllResult \<longrightarrow> InsertAllParams.Docs params = [])"
  using assms
  by (auto simp: InsertAll_def InTransaction_def Let_def insertBatches_nil_meta
      split: sum.splits prod.splits option.splits if_splits)

lemma InsertAll_run:
  assumes "CollectionCreate (r c) (store s) (dbName c) (name c) = Inr (cr, st)"
    and "DatabaseGetExisting (r c) st (dbName c) = Inr (Some p)"
    and "CollectionGet (r c) st (dbName c) (name c) = Inr (Some m)"
    and "Begin p st = None"
    and "runBatches h c m p (batches (InsertAllParams.Docs params)) st = (res, st', new)"
  shows "InsertAll h c params s =
    (case res of
       Inl e \<Rightarrow> (Inl e, s\<lparr>store := st, sent := sent s @ new\<rparr>)
     | Inr u \<Rightarrow>
         (case Commit p st' of
            Some err \<Rightarrow> (Inl (Err (LazyError (Raw err))), s\<lparr>store := st, sent := sent s @ new\<rparr>)
          | None \<Rightarrow> (Inr InsertAllResult, s\<lparr>store := st', sent := sent s @ new\<rparr>)))"
  using assms
  by (simp add: InsertAll_def InTransaction_def Let_def insertBatches_run
      split: sum.splits option.splits)

lemma example_create:
  "CollectionCreate (r (example_collection ''db'' ''coll'')) st ''db'' ''coll'' = Inr (False, st)"
  "DatabaseGetExisting (r (example_collection ''db'' ''coll'')) st ''db'' = Inr (Some example_pool)"
  "CollectionGet (r (example_collection ''db'' ''coll'')) st ''db'' ''coll'' = Inr (Some example_meta)"
  "Begin example_pool st = None"
  "Commit example_pool st = None"
  "dbName (example_collection ''db'' ''coll'') = ''db''"
  "name (example_collection ''db'' ''coll'') = ''coll''"
  by (simp_all add: example_collection_def example_registry_def example_pool_def)

lemma batches_example: "batches ([0..<100] @ [5::nat]) = [[0..<100], [5]]"
proof -
  have "batches ([0..<100] @ [5::nat]) = [0..<100] # batches [5]"
    by (subst batches.simps) (simp add: batchSize_def del: upt_rec_numeral)
  also have "batches [5::nat] = [[5]]"
    by (subst batches.simps) (simp add: batchSize_def)
  finally show ?thesis .
qed

lemma run_example:
  "runBatches example_helpers (example_collection ''db'' ''coll'') example_meta example_pool
     [[0..<100], [5]] [] =
   (Inl (Err (BackendError ErrorCodeInsertDuplicateID (Raw (PgError ''23505'')))), [0..<100],
    [((''INSERT INTO db.coll_1'', map (\<lambda>d. AnyBytes (replicate d CHR ''i'')) [0..<100]), Affected 100),
     ((''INSERT INTO db.coll_1'', [AnyBytes (replicate 5 CHR ''i'')]), Failed (PgError ''23505''))])"
    by (simp add: prepared_def example_helpers_def example_collection_def example_meta_def
        example_pool_def example_id_def UniqueViolation_def duplicate_or_wrapped_def o_def)

lemma batches_250: "batches [0..<250::nat] = [[0..<100], [100..<200], [200..<250]]"
proof -
  have "batches [0..<250::nat] = [0..<100] # batches [100..<250]"
    by (subst batches.simps) (simp add: batchSize_def)
  also have "batches [100..<250::nat] = [100..<200] # batches [200..<250]"
    by (subst batches.simps) (simp add: batchSize_def)
  also have "batches [200..<250::nat] = [200..<250] # batches []"
    by (subst batches.simps) (simp add: batchSize_def)
  finally show ?thesis by simp
qed

lemma run_250:
  "runBatches example_helpers (example_collection ''db'' ''coll'') example_meta example_pool
     [[0..<100], [100..<200], [200..<250]] [] =
   (Inr (), [0..<100] @ [100..<200] @ [200..<250],
    [((''INSERT INTO db.coll_1'', map (\<lambda>d. AnyBytes (replicate d CHR ''i'')) [0..<100]), Affected 100),
     ((''INSERT INTO db.coll_1'', map (\<lambda>d. AnyBytes (replicate d CHR ''i'')) [100..<200]), Affected 100),
     ((''INSERT INTO db.coll_1'', map (\<lambda>d. AnyBytes (replicate d CHR ''i'')) [200..<250]), Affected 50)])"
proof -
  have disj: "{100..<200} \<inter> {0..<100::nat} = {}" "{200..<250} \<inter> ({0..<100::nat} \<union> {100..<200}) = {}"
    by auto
  show ?thesis
    by (simp add: prepared_def example_helpers_def example_collection_def example_meta_def
        example_pool_def example_id_def o_def disj)
qed

lemma InsertAll_example_duplicate:
  "InsertAll example_helpers (example_collection ''db'' ''coll'')
     \<lparr>InsertAllParams.Docs = [0..<100] @ [5]\<rparr> (example_engine []) =
   (Inl (Err (BackendError ErrorCodeInsertDuplicateID (Raw (PgError ''23505'')))),
    \<lparr>store = [],
     sent =
       [((''INSERT INTO db.coll_1'', map (\<lambda>d. AnyBytes (replicate d CHR ''i'')) [0..<100]),
         Affected 100),
        ((''INSERT INTO db.coll_1'', [AnyBytes (replicate 5 CHR ''i'')]),
         Failed (PgError ''23505''))]\<rparr>)"
proof -
  have loop: "runBatches example_helpers (example_collection ''db'' ''coll'') example_meta
      example_pool (batches (InsertAllParams.Docs \<lparr>InsertAllParams.Docs = [0..<100] @ [5]\<rparr>))
      [] =
    (Inl (Err (BackendError ErrorCodeInsertDuplicateID (Raw (PgError ''23505'')))), [0..<100],
     [((''INSERT INTO db.coll_1'', map (\<lambda>d. AnyBytes (replicate d CHR ''i'')) [0..<100]),
       Affected 100),
      ((''INSERT INTO db.coll_1'', [AnyBytes (replicate 5 CHR ''i'')]),
       Failed (PgError ''23505''))])"
    by (simp only: InsertAllParams.simps batches_example run_example)
  have start: "store (example_engine []) = []" "sent (example_engine []) = []"
    by (simp_all add: example_engine_def)
  show ?thesis
    using InsertAll_run [of "example_collection ''db'' ''coll''" "example_engine []" False "[]"
        example_pool example_meta example_helpers
        "\<lparr>InsertAllParams.Docs = [0..<100] @ [5]\<rparr>", OF _ _ _ _ loop]
    by (simp add: example_create start)
qed

lemma InsertAll_example_250:
  "InsertAll example_helpers (example_collection ''db'' ''coll'')
     \<lparr>InsertAllParams.Docs = [0..<250]\<rparr> (example_engine []) =
   (Inr InsertAllResult,
    \<lparr>store = [0..<100] @ [100..<200] @ [200..<250],
     sent =
       [((''INSERT INTO db.coll_1'', map (\<lambda>d. AnyBytes (replicate d CHR ''i'')) [0..<100]),
         Affected 100),
        ((''INSERT INTO db.coll_1'', map (\<lambda>d. AnyBytes (replicate d CHR ''i'')) [100..<200]),
         Affected 100),
        ((''INSERT INTO db.coll_1'', map (\<lambda>d. AnyBytes (replicate d CHR ''i'')) [200..<250]),
         Affected 50)]\<rparr>)"
proof -
  have loop: "runBatches example_helpers (example_collection ''db'' ''coll'') example_meta
      example_pool (batches (InsertAllParams.Docs \<lparr>InsertAllParams.Docs = [0..<250]\<rparr>)) [] =
    (Inr (), [0..<100] @ [100..<200] @ [200..<250],
     [((''INSERT INTO db.coll_1'', map (\<lambda>d. AnyBytes (replicate d CHR ''i'')) [0..<100]),
       Affected 100),
      ((''INSERT INTO db.coll_1'', map (\<lambda>d. AnyBytes (replicate d CHR ''i'')) [100..<200]),
       Affected 100),
      ((''INSERT INTO db.coll_1'', map (\<lambda>d. AnyBytes (replicate d CHR ''i'')) [200..<250]),
       Affected 50)])"
    by (simp only: InsertAllParams.simps batches_250 run_250)
  have start: "store (example_engine []) = []" "sent (example_engine []) = []"
    by (simp_all add: example_engine_def)
  have blank: "example_engine []\<lparr>store := st, sent := lg\<rparr> = \<lparr>store = st, sent = lg\<rparr>" for st lg
    by (simp add: example_engine_def)
  show ?thesis
    using InsertAll_run [of "example_collection ''db'' ''coll''" "example_engine []" False "[]"
        example_pool example_meta example_helpers
        "\<lparr>InsertAllParams.Docs = [0..<250]\<rparr>", OF _ _ _ _ loop]
    by (simp only: example_create start blank append_Nil sum.case option.case)
qed

text \<open>
  C6. The loop of \<^verbatim>\<open>InsertAll\<close> cuts the document list, in its given order, into
  consecutive batches: their concatenation is the list, every batch holds at least one
  and at most 100 documents, and every batch but the last holds exactly 100. The
  statements the call sends are the INSERT statements prepared for the first of these
  batches, one per batch and in their order; a call that succeeds has sent one
  statement for every batch, each answered with a command tag.
\<close>

theorem InsertAll_batches:
  assumes create: "CollectionCreate (r c) (store s) (dbName c) (name c) = Inr (cr, st)"
    and coll: "CollectionGet (r c) st (dbName c) (name c) = Inr (Some m)"
    and run: "InsertAll h c params s = (res, s')"
    and log: "sent s' = sent s @ new"
  shows "concat (batches (InsertAllParams.Docs params)) = InsertAllParams.Docs params \<and>
    (\<forall>b\<in>set (batches (InsertAllParams.Docs params)). 0 < length b \<and> length b \<le> 100) \<and>
    (\<forall>b\<in>set (butlast (batches (InsertAllParams.Docs params))). length b = 100) \<and>
    length new \<le> length (batches (InsertAllParams.Docs params)) \<and>
    map (Inr \<circ> fst) new =
      map (prepared h c m) (take (length new) (batches (InsertAllParams.Docs params))) \<and>
    (res = Inr InsertAllResult \<longrightarrow>
       length new = length (batches (InsertAllParams.Docs params)) \<and>
       (\<forall>e\<in>set new. \<exists>tag. snd e = Affected tag))"
proof -
  let ?docs = "InsertAllParams.Docs params"
  have shape: "concat (batches ?docs) = ?docs \<and>
      (\<forall>b\<in>set (batches ?docs). 0 < length b \<and> length b \<le> 100) \<and>
      (\<forall>b\<in>set (butlast (batches ?docs)). length b = 100)"
    using batches_length [where docs = ?docs] batches_full [where docs = ?docs]
    by (auto simp: concat_batches batchSize_def)
  have sent_: "length new \<le> length (batches ?docs) \<and>
      map (Inr \<circ> fst) new = map (prepared h c m) (take (length new) (batches ?docs)) \<and>
      (res = Inr InsertAllResult \<longrightarrow>
         length new = length (batches ?docs) \<and> (\<forall>e\<in>set new. \<exists>tag. snd e = Affected tag))"
  proof (cases "\<exists>p. DatabaseGetExisting (r c) st (dbName c) = Inr (Some p) \<and> Begin p st = None")
    case True
    then obtain p where db: "DatabaseGetExisting (r c) st (dbName c) = Inr (Some p)"
      and tx_begin: "Begin p st = None"
      by blast
    obtain res1 st1 new1 where loop: "runBatches h c m p (batches ?docs) st = (res1, st1, new1)"
      by (cases "runBatches h c m p (batches ?docs) st")
    note all = InsertAll_run [OF create db coll tx_begin loop]
    have "sent s' = sent s @ new1"
      using all run by (auto split: sum.splits option.splits)
    with log have new: "new1 = new"
      by simp
    have ok: "length new = length (batches ?docs) \<and> (\<forall>e\<in>set new. \<exists>tag. snd e = Affected tag)"
      if "res = Inr InsertAllResult"
    proof -
      from that all run obtain u where "res1 = Inr u"
        by (auto split: sum.splits option.splits)
      with runBatches_success [of h c m p "batches ?docs" st u st1 new1] loop new
      show ?thesis by simp
    qed
    from runBatches_stmts [OF loop] new ok show ?thesis
      by simp
  next
    case False
    with create coll
    have "\<not> (\<exists>cr st p m. CollectionCreate (r c) (store s) (dbName c) (name c) = Inr (cr, st) \<and>
           DatabaseGetExisting (r c) st (dbName c) = Inr (Some p) \<and>
           CollectionGet (r c) st (dbName c) (name c) = Inr (Some m) \<and>
           Begin p st = None)"
      by auto
    from InsertAll_no_statement [OF run this] log
    show ?thesis by simp
  qed
  from shape sent_ show ?thesis
    by blast
qed

theorem InsertAll_batches_witness:
  "CollectionCreate (r (example_collection ''db'' ''coll'')) (store (example_engine []))
     (dbName (example_collection ''db'' ''coll'')) (name (example_collection ''db'' ''coll'')) =
     Inr (False, []) \<and>
   CollectionGet (r (example_collection ''db'' ''coll'')) []
     (dbName (example_collection ''db'' ''coll'')) (name (example_collection ''db'' ''coll'')) =
     Inr (Some example_meta) \<and>
   InsertAll example_helpers (example_collection ''db'' ''coll'')
     \<lparr>InsertAllParams.Docs = [0..<250]\<rparr> (example_engine []) =
   (Inr InsertAllResult,
    \<lparr>store = [0..<100] @ [100..<200] @ [200..<250],
     sent =
       [((''INSERT INTO db.coll_1'', map (\<lambda>d. AnyBytes (replicate d CHR ''i'')) [0..<100]),
         Affected 100),
        ((''INSERT INTO db.coll_1'', map (\<lambda>d. AnyBytes (replicate d CHR ''i'')) [100..<200]),
         Affected 100),
        ((''INSERT INTO db.coll_1'', map (\<lambda>d. AnyBytes (replicate d CHR ''i'')) [200..<250]),
         Affected 50)]\<rparr>) \<and>
   batches [0..<250::nat] = [[0..<100], [100..<200], [200..<250]] \<and>
   map length (batches [0..<250::nat]) = [100, 100, 50]"
proof -
  let ?c = "example_collection ''db'' ''coll''"
  let ?new = "[((''INSERT INTO db.coll_1'', map (\<lambda>d. AnyBytes (replicate d CHR ''i'')) [0..<100]),
         Affected 100),
        ((''INSERT INTO db.coll_1'', map (\<lambda>d. AnyBytes (replicate d CHR ''i'')) [100..<200]),
         Affected 100),
        ((''INSERT INTO db.coll_1'', map (\<lambda>d. AnyBytes (replicate d CHR ''i'')) [200..<250]),
         Affected 50)]"
  have create: "CollectionCreate (r ?c) (store (example_engine [])) (dbName ?c) (name ?c) =
      Inr (False, [])"
    by (simp add: example_create example_engine_def)
  have coll: "CollectionGet (r ?c) [] (dbName ?c) (name ?c) = Inr (Some example_meta)"
    by (simp add: example_create)
  have log: "sent \<lparr>store = [0..<100] @ [100..<200] @ [200..<250], sent = ?new\<rparr> =
      sent (example_engine []) @ ?new"
    by (simp add: example_engine_def)
  have lens: "map length (batches [0..<250::nat]) = [100, 100, 50]"
    by (simp add: batches_250)
  show ?thesis
    using InsertAll_batches [OF create coll InsertAll_example_250 log] create coll InsertAll_example_250
      batches_250 lens
    by blast
qed

text \<open>
  C1. When, during an \<^verbatim>\<open>InsertAll\<close> call, the engine answers the statement of a
  batch with a uniqueness violation, then the call returns the duplicate-identifier
  error \<^verbatim>\<open>ErrorCodeInsertDuplicateID\<close> around the engine's error, not a wrapped generic
  one; the failed statement is the last one the call sends, all statements before it
  having succeeded, so the batches after it are not executed; and the engine holds
  what it held when \<^verbatim>\<open>CollectionCreate\<close> returned: no document of the call is
  persisted, the batches that had succeeded included.
\<close>

theorem InsertAll_duplicate_aborts:
  assumes run: "InsertAll h c params s = (res, s')"
    and log: "sent s' = sent s @ new"
    and failed: "(stmt, Failed err) \<in> set new"
    and dup: "errors_As_PgError err = Some UniqueViolation"
  shows "res = Inl (Err (BackendError ErrorCodeInsertDuplicateID (Raw err))) \<and>
    (\<exists>pre. new = pre @ [(stmt, Failed err)] \<and> (\<forall>e\<in>set pre. \<exists>tag. snd e = Affected tag)) \<and>
    (\<exists>cr m. CollectionCreate (r c) (store s) (dbName c) (name c) = Inr (cr, store s') \<and>
       CollectionGet (r c) (store s') (dbName c) (name c) = Inr (Some m) \<and>
       length new \<le> length (batches (InsertAllParams.Docs params)) \<and>
       map (Inr \<circ> fst) new =
         map (prepared h c m) (take (length new) (batches (InsertAllParams.Docs params))))"
proof -
  have "new \<noteq> []"
    using failed by auto
  with log have "sent s' \<noteq> sent s"
    by simp
  with InsertAll_no_statement [OF run] obtain cr st p m where
    create: "CollectionCreate (r c) (store s) (dbName c) (name c) = Inr (cr, st)" and
    db: "DatabaseGetExisting (r c) st (dbName c) = Inr (Some p)" and
    coll: "CollectionGet (r c) st (dbName c) (name c) = Inr (Some m)" and
    tx_begin: "Begin p st = None"
    by blast
  obtain res1 st1 new1 where
    loop: "runBatches h c m p (batches (InsertAllParams.Docs params)) st = (res1, st1, new1)"
    by (cases "runBatches h c m p (batches (InsertAllParams.Docs params)) st")
  note all = InsertAll_run [OF create db coll tx_begin loop]
  have "sent s' = sent s @ new1"
    using all run by (auto split: sum.splits option.splits)
  with log have new: "new1 = new"
    by simp
  from runBatches_failed [OF loop] failed new
  have res1: "res1 = Inl (Err (duplicate_or_wrapped err))"
    and last: "\<exists>pre. new = pre @ [(stmt, Failed err)] \<and> (\<forall>e\<in>set pre. \<exists>tag. snd e = Affected tag)"
    by simp_all
  from all run res1 dup
  have res: "res = Inl (Err (BackendError ErrorCodeInsertDuplicateID (Raw err)))"
    and store: "store s' = st"
    by (auto simp: duplicate_or_wrapped_def)
  from runBatches_stmts [OF loop] new
  have stmts: "length new \<le> length (batches (InsertAllParams.Docs params))"
    "map (Inr \<circ> fst) new =
       map (prepared h c m) (take (length new) (batches (InsertAllParams.Docs params)))"
    by simp_all
  show ?thesis
    using res last create coll store stmts by blast
qed

theorem InsertAll_duplicate_aborts_witness:
  "InsertAll example_helpers (example_collection ''db'' ''coll'')
     \<lparr>InsertAllParams.Docs = [0..<100] @ [5]\<rparr> (example_engine []) =
   (Inl (Err (BackendError ErrorCodeInsertDuplicateID (Raw (PgError ''23505'')))),
    \<lparr>store = [],
     sent =
       [((''INSERT INTO db.coll_1'', map (\<lambda>d. AnyBytes (replicate d CHR ''i'')) [0..<100]),
         Affected 100),
        ((''INSERT INTO db.coll_1'', [AnyBytes (replicate 5 CHR ''i'')]),
         Failed (PgError ''23505''))]\<rparr>) \<and>
   errors_As_PgError (PgError ''23505'') = Some UniqueViolation \<and>
   batches ([0..<100] @ [5::nat]) = [[0..<100], [5]]"
proof -
  let ?new = "[((''INSERT INTO db.coll_1'', map (\<lambda>d. AnyBytes (replicate d CHR ''i'')) [0..<100]),
         Affected 100),
        ((''INSERT INTO db.coll_1'', [AnyBytes (replicate 5 CHR ''i'')]),
         Failed (PgError ''23505''))]"
  have log: "sent \<lparr>store = [], sent = ?new\<rparr> = sent (example_engine []) @ ?new"
    by (simp add: example_engine_def)
  have failed: "((''INSERT INTO db.coll_1'', [AnyBytes (replicate 5 CHR ''i'')]),
         Failed (PgError ''23505'')) \<in> set ?new"
    by simp
  have dup: "errors_As_PgError (PgError ''23505'') = Some UniqueViolation"
    by (simp add: UniqueViolation_def)
  show ?thesis
    using InsertAll_duplicate_aborts [OF InsertAll_example_duplicate log failed dup] InsertAll_example_duplicate dup
      batches_example
    by blast
qed

section \<open>The collection: UpdateAll\<close>

lemma ucast_sint:
  fixes w :: "64 word"
  shows "(ucast w :: 32 word) = word_of_int (sint w)"
proof -
  have "take_bit 32 (sint w) = take_bit 32 (uint w)"
    by (simp add: sint_uint take_bit_signed_take_bit)
  then have "(word_of_int (sint w) :: 32 word) = word_of_int (uint w)"
    unfolding word_of_int_eq_iff by simp
  then show ?thesis
    by (simp only: ucast_eq)
qed

lemma sum_ucast:
  fixes ws :: "64 word list"
  shows "(\<Sum>w\<leftarrow>ws. (ucast w :: 32 word)) = word_of_int (\<Sum>w\<leftarrow>ws. sint w)"
proof (induction ws)
  case Nil
  show ?case by simp
next
  case (Cons a ws)
  then show ?case
    by (simp only: list.map sum_list.Cons of_int_add ucast_sint)
qed

lemma sint_small:
  fixes x :: int
  assumes "- (2 ^ 31) \<le> x" "x < 2 ^ 31"
  shows "sint (word_of_int x :: 32 word) = x"
  using assms by (simp add: sint_sbintrunc' signed_take_bit_int_eq_self)

lemma updateDocs_success:
  "updateDocs h q tx docs updated s = (Inr n, s') \<Longrightarrow>
   \<exists>new. sent s' = sent s @ new \<and>
     map (Some \<circ> fst) new = map (update_stmt h q) docs \<and>
     (\<forall>e\<in>set new. \<exists>tag. snd e = Affected tag) \<and>
     n = updated + (\<Sum>e\<leftarrow>new. ucast (affected (snd e)))"
proof (induction docs arbitrary: updated s)
  case Nil
  then show ?case by simp
next
  case (Cons doc docs)
  from Cons.prems obtain b v arg tag st where
    enc: "sjson_Marshal h doc = Inr b" "doc_Get h doc ''_id'' = Some v"
      "sjson_MarshalSingleValue h v = Inr arg" and
    exec: "Exec tx (store s) q [AnyBytes b, AnyBytes arg] = Inr (tag, st)" and
    rest: "updateDocs h q tx docs (updated + ucast tag)
             (send q [AnyBytes b, AnyBytes arg] (Affected tag) (s\<lparr>store := st\<rparr>)) = (Inr n, s')"
    by (auto split: sum.splits option.splits prod.splits)
  from Cons.IH [OF rest] obtain new where
    ih: "sent s' =
           sent (send q [AnyBytes b, AnyBytes arg] (Affected tag) (s\<lparr>store := st\<rparr>)) @ new"
      "map (Some \<circ> fst) new = map (update_stmt h q) docs"
      "\<forall>e\<in>set new. \<exists>tag. snd e = Affected tag"
      "n = updated + ucast tag + (\<Sum>e\<leftarrow>new. ucast (affected (snd e)))"
    by blast
  let ?new = "((q, [AnyBytes b, AnyBytes arg]), Affected tag) # new"
  have "sent s' = sent s @ ?new"
    using ih(1) by (simp add: send_def)
  moreover have "map (Some \<circ> fst) ?new = map (update_stmt h q) (doc # docs)"
    using ih(2) enc by (simp add: update_stmt_def)
  moreover have "\<forall>e\<in>set ?new. \<exists>tag. snd e = Affected tag"
    using ih(3) by simp
  moreover have "n = updated + (\<Sum>e\<leftarrow>?new. ucast (affected (snd e)))"
    using ih(4) by (simp add: affected_def)
  ultimately show ?case
    by blast
qed

lemma updateDocs_total:
  assumes "\<forall>d\<in>set docs. update_stmt h q d \<noteq> None"
    and "\<forall>st args. \<exists>tag st'. Exec tx st q args = Inr (tag, st')"
  shows "\<exists>n s'. updateDocs h q tx docs updated s = (Inr n, s')"
  using assms(1)
proof (induction docs arbitrary: updated s)
  case Nil
  then show ?case by simp
next
  case (Cons doc docs)
  from Cons.prems obtain b v arg where
    enc: "sjson_Marshal h doc = Inr b" "doc_Get h doc ''_id'' = Some v"
      "sjson_MarshalSingleValue h v = Inr arg"
    by (auto simp: update_stmt_def split: sum.splits option.splits)
  from assms(2) obtain tag st where
    exec: "Exec tx (store s) q [AnyBytes b, AnyBytes arg] = Inr (tag, st)"
    by blast
  from Cons.prems have "\<forall>d\<in>set docs. update_stmt h q d \<noteq> None"
    by simp
  from Cons.IH [OF this] show ?case
    by (simp add: enc exec)
qed

lemma UpdateAll_run:
  assumes "namespace_existing c s p meta"
  shows "UpdateAll h c params s =
    (case InTransaction (Some p)
            (\<lambda>tx. updateDocs h (update_query h c meta) tx (UpdateAllParams.Docs params) 0) s of
       (Inl (Err err), s') \<Rightarrow> (Inl (Err (LazyError err)), s')
     | (Inl (Panic msg), s') \<Rightarrow> (Inl (Panic msg), s')
     | (Inr updated, s') \<Rightarrow> (Inr \<lparr>Updated = updated\<rparr>, s'))"
  using assms by (simp add: namespace_existing_def UpdateAll_def)

lemma InTransaction_failed:
  "InTransaction p f s = (Inl e, s') \<Longrightarrow> store s' = store s"
  by (auto simp: InTransaction_def split: option.splits sum.splits prod.splits)

lemma InTransaction_done:
  "InTransaction p f s = (Inr v, s') \<Longrightarrow> \<exists>tx. p = Some tx \<and> f tx s = (Inr v, s')"
  by (auto simp: InTransaction_def split: option.splits sum.splits prod.splits)

lemma UpdateAll_example:
  "UpdateAll example_helpers (example_collection ''db'' ''coll'')
     \<lparr>UpdateAllParams.Docs = [1, 5, 2]\<rparr> (example_engine [1, 2]) =
   (Inr \<lparr>Updated = 2\<rparr>,
    \<lparr>store = [1, 2],
     sent =
       [((''UPDATE db.coll_1 SET _jsonb = $1 WHERE _id = $2'',
          [AnyBytes ''doc'', AnyBytes (replicate 1 CHR ''i'')]), Affected 1),
        ((''UPDATE db.coll_1 SET _jsonb = $1 WHERE _id = $2'',
          [AnyBytes ''doc'', AnyBytes (replicate 5 CHR ''i'')]), Affected 0),
        ((''UPDATE db.coll_1 SET _jsonb = $1 WHERE _id = $2'',
          [AnyBytes ''doc'', AnyBytes (replicate 2 CHR ''i'')]), Affected 1)]\<rparr>)"
  by (simp add: UpdateAll_def InTransaction_def update_query_def send_def Let_def
      example_collection_def example_registry_def example_engine_def example_helpers_def
      example_pool_def example_meta_def example_id_def)

text \<open>
  C7. For an \<^verbatim>\<open>UpdateAll\<close> call on an existing namespace: a call that fails leaves
  the engine's contents as they were (all updates run in one transaction). A call that
  succeeds has sent exactly one statement per document, in order, each the single-row
  UPDATE with the encoded document and the encoded identifier of that document as
  arguments, and each answered with a command tag; its \<^verbatim>\<open>Updated\<close> is the sum of the
  rows these tags report as affected, taken in 32-bit arithmetic as the code does, and
  equal to the integer sum whenever that fits 32 bits. When every document can be
  encoded and the engine answers every statement with a command tag, whatever number
  of rows it reports, zero included, the call succeeds: a document that matches no row
  adds zero and causes no error.
\<close>

theorem UpdateAll_counts:
  assumes existing: "namespace_existing c s p meta"
    and run: "UpdateAll h c params s = (res, s')"
    and log: "sent s' = sent s @ new"
  shows "(\<forall>e. res = Inl e \<longrightarrow> store s' = store s) \<and>
    (\<forall>result. res = Inr result \<longrightarrow>
       map (Some \<circ> fst) new =
         map (update_stmt h (update_query h c meta)) (UpdateAllParams.Docs params) \<and>
       (\<forall>e\<in>set new. \<exists>tag. snd e = Affected tag) \<and>
       Updated result = (\<Sum>e\<leftarrow>new. ucast (affected (snd e))) \<and>
       Updated result = word_of_int (\<Sum>e\<leftarrow>new. sint (affected (snd e))) \<and>
       (- (2 ^ 31) \<le> (\<Sum>e\<leftarrow>new. sint (affected (snd e))) \<and>
        (\<Sum>e\<leftarrow>new. sint (affected (snd e))) < 2 ^ 31 \<longrightarrow>
        sint (Updated result) = (\<Sum>e\<leftarrow>new. sint (affected (snd e))))) \<and>
    ((\<forall>d\<in>set (UpdateAllParams.Docs params). update_stmt h (update_query h c meta) d \<noteq> None) \<and>
     (\<forall>st args. \<exists>tag st'. Exec p st (update_query h c meta) args = Inr (tag, st')) \<and>
     (\<forall>st. Begin p st = None \<and> Commit p st = None) \<longrightarrow>
     (\<exists>result. res = Inr result))"
proof -
  let ?q = "update_query h c meta"
  let ?docs = "UpdateAllParams.Docs params"
  let ?f = "\<lambda>tx. updateDocs h ?q tx ?docs 0"
  obtain res1 s1 where tr: "InTransaction (Some p) ?f s = (res1, s1)"
    by (cases "InTransaction (Some p) ?f s")
  from UpdateAll_run [OF existing, of h params] run tr
  have s1: "s1 = s'"
    by (auto split: sum.splits failure.splits)
  have failed: "store s' = store s" if "res = Inl e" for e
  proof -
    from UpdateAll_run [OF existing, of h params] run tr that obtain e1 where "res1 = Inl e1"
      by (auto split: sum.splits failure.splits)
    with tr s1 show ?thesis
      by (auto dest: InTransaction_failed)
  qed
  have succeeded: "map (Some \<circ> fst) new = map (update_stmt h ?q) ?docs \<and>
       (\<forall>e\<in>set new. \<exists>tag. snd e = Affected tag) \<and>
       Updated result = (\<Sum>e\<leftarrow>new. ucast (affected (snd e)))"
    if "res = Inr result" for result
  proof -
    from UpdateAll_run [OF existing, of h params] run tr that
    have "res1 = Inr (Updated result)"
      by (auto split: sum.splits failure.splits)
    with tr s1 have "updateDocs h ?q p ?docs 0 s = (Inr (Updated result), s')"
      by (auto dest: InTransaction_done)
    from updateDocs_success [OF this] log show ?thesis
      by auto
  qed
  have total: "\<exists>result. res = Inr result"
    if enc: "\<forall>d\<in>set ?docs. update_stmt h ?q d \<noteq> None"
      and ok: "\<forall>st args. \<exists>tag st'. Exec p st ?q args = Inr (tag, st')"
      and tx: "\<forall>st. Begin p st = None \<and> Commit p st = None"
  proof -
    from updateDocs_total [OF enc ok] obtain n s2 where
      "updateDocs h ?q p ?docs 0 s = (Inr n, s2)"
      by blast
    with tx have "InTransaction (Some p) ?f s = (Inr n, s2)"
      by (simp add: InTransaction_def)
    with UpdateAll_run [OF existing, of h params] run show ?thesis
      by auto
  qed
  have sums: "(\<Sum>e\<leftarrow>new. (ucast (affected (snd e)) :: 32 word)) =
      word_of_int (\<Sum>e\<leftarrow>new. sint (affected (snd e)))"
    using sum_ucast [of "map (\<lambda>e. affected (snd e)) new"] by (simp add: comp_def)
  have A: "\<forall>e. res = Inl e \<longrightarrow> store s' = store s"
    using failed by blast
  have B: "\<forall>result. res = Inr result \<longrightarrow>
       map (Some \<circ> fst) new = map (update_stmt h ?q) ?docs \<and>
       (\<forall>e\<in>set new. \<exists>tag. snd e = Affected tag) \<and>
       Updated result = (\<Sum>e\<leftarrow>new. ucast (affected (snd e))) \<and>
       Updated result = word_of_int (\<Sum>e\<leftarrow>new. sint (affected (snd e))) \<and>
       (- (2 ^ 31) \<le> (\<Sum>e\<leftarrow>new. sint (affected (snd e))) \<and>
        (\<Sum>e\<leftarrow>new. sint (affected (snd e))) < 2 ^ 31 \<longrightarrow>
        sint (Updated result) = (\<Sum>e\<leftarrow>new. sint (affected (snd e))))"
  proof (intro allI impI)
    fix result
    assume result: "res = Inr result"
    note d = succeeded [OF result]
    have wrapped: "Updated result = word_of_int (\<Sum>e\<leftarrow>new. sint (affected (snd e)))"
      using d sums by simp
    have exact: "sint (Updated result) = (\<Sum>e\<leftarrow>new. sint (affected (snd e)))"
      if "- (2 ^ 31) \<le> (\<Sum>e\<leftarrow>new. sint (affected (snd e))) \<and>
          (\<Sum>e\<leftarrow>new. sint (affected (snd e))) < 2 ^ 31"
      using that wrapped sint_small by simp
    show "map (Some \<circ> fst) new = map (update_stmt h ?q) ?docs \<and>
       (\<forall>e\<in>set new. \<exists>tag. snd e = Affected tag) \<and>
       Updated result = (\<Sum>e\<leftarrow>new. ucast (affected (snd e))) \<and>
       Updated result = word_of_int (\<Sum>e\<leftarrow>new. sint (affected (snd e))) \<and>
       (- (2 ^ 31) \<le> (\<Sum>e\<leftarrow>new. sint (affected (snd e))) \<and>
        (\<Sum>e\<leftarrow>new. sint (affected (snd e))) < 2 ^ 31 \<longrightarrow>
        sint (Updated result) = (\<Sum>e\<leftarrow>new. sint (affected (snd e))))"
      using d wrapped exact by blast
  qed
  have C: "(\<forall>d\<in>set ?docs. update_stmt h ?q d \<noteq> None) \<and>
     (\<forall>st args. \<exists>tag st'. Exec p st ?q args = Inr (tag, st')) \<and>
     (\<forall>st. Begin p st = None \<and> Commit p st = None) \<longrightarrow>
     (\<exists>result. res = Inr result)"
    using total by blast
  show ?thesis
    by (rule conjI [OF A conjI [OF B C]])
qed

lemma UpdateAll_example_uncommitted:
  "UpdateAll example_helpers \<lparr>r = uncommitted_registry, dbName = ''db'', name = ''coll''\<rparr>
     \<lparr>UpdateAllParams.Docs = [1, 5, 2]\<rparr> (example_engine [1, 2]) =
   (Inl (Err (LazyError (LazyError (Raw (OtherError ''commit failed''))))),
    \<lparr>store = [1, 2],
     sent =
       [((''UPDATE db.coll_1 SET _jsonb = $1 WHERE _id = $2'',
          [AnyBytes ''doc'', AnyBytes (replicate 1 CHR ''i'')]), Affected 1),
        ((''UPDATE db.coll_1 SET _jsonb = $1 WHERE _id = $2'',
          [AnyBytes ''doc'', AnyBytes (replicate 5 CHR ''i'')]), Affected 0),
        ((''UPDATE db.coll_1 SET _jsonb = $1 WHERE _id = $2'',
          [AnyBytes ''doc'', AnyBytes (replicate 2 CHR ''i'')]), Affected 1)]\<rparr>)"
  by (simp add: UpdateAll_def InTransaction_def update_query_def send_def Let_def
      uncommitted_registry_def uncommitted_pool_def example_registry_def example_engine_def
      example_helpers_def example_pool_def example_meta_def example_id_def)

theorem UpdateAll_counts_witness:
  "namespace_existing (example_collection ''db'' ''coll'') (example_engine [1, 2])
     example_pool example_meta \<and>
   UpdateAll example_helpers (example_collection ''db'' ''coll'')
     \<lparr>UpdateAllParams.Docs = [1, 5, 2]\<rparr> (example_engine [1, 2]) =
   (Inr \<lparr>Updated = 2\<rparr>,
    \<lparr>store = [1, 2],
     sent =
       [((''UPDATE db.coll_1 SET _jsonb = $1 WHERE _id = $2'',
          [AnyBytes ''doc'', AnyBytes (replicate 1 CHR ''i'')]), Affected 1),
        ((''UPDATE db.coll_1 SET _jsonb = $1 WHERE _id = $2'',
          [AnyBytes ''doc'', AnyBytes (replicate 5 CHR ''i'')]), Affected 0),
        ((''UPDATE db.coll_1 SET _jsonb = $1 WHERE _id = $2'',
          [AnyBytes ''doc'', AnyBytes (replicate 2 CHR ''i'')]), Affected 1)]\<rparr>) \<and>
   sint (2 :: int32) = sint (1 :: int64) + sint (0 :: int64) + sint (1 :: int64) \<and>
   sint (1 :: int64) + sint (0 :: int64) + sint (1 :: int64) < 2 ^ 31 \<and>
   list_all (\<lambda>d. update_stmt example_helpers
       (update_query example_helpers (example_collection ''db'' ''coll'') example_meta) d \<noteq> None)
     [1, 5, 2] \<and>
   (\<forall>st args. \<exists>tag st'.
      Exec example_pool st
        (update_query example_helpers (example_collection ''db'' ''coll'') example_meta) args =
      Inr (tag, st')) \<and>
   (\<forall>st. Begin example_pool st = None \<and> Commit example_pool st = None) \<and>
   namespace_existing \<lparr>r = uncommitted_registry, dbName = ''db'', name = ''coll''\<rparr>
     (example_engine [1, 2]) uncommitted_pool example_meta \<and>
   fst (UpdateAll example_helpers \<lparr>r = uncommitted_registry, dbName = ''db'', name = ''coll''\<rparr>
     \<lparr>UpdateAllParams.Docs = [1, 5, 2]\<rparr> (example_engine [1, 2])) =
     Inl (Err (LazyError (LazyError (Raw (OtherError ''commit failed''))))) \<and>
   store (snd (UpdateAll example_helpers
     \<lparr>r = uncommitted_registry, dbName = ''db'', name = ''coll''\<rparr>
     \<lparr>UpdateAllParams.Docs = [1, 5, 2]\<rparr> (example_engine [1, 2]))) = [1, 2]"
proof -
  let ?new = "[((''UPDATE db.coll_1 SET _jsonb = $1 WHERE _id = $2'',
          [AnyBytes ''doc'', AnyBytes (replicate 1 CHR ''i'')]), Affected 1),
        ((''UPDATE db.coll_1 SET _jsonb = $1 WHERE _id = $2'',
          [AnyBytes ''doc'', AnyBytes (replicate 5 CHR ''i'')]), Affected 0),
        ((''UPDATE db.coll_1 SET _jsonb = $1 WHERE _id = $2'',
          [AnyBytes ''doc'', AnyBytes (replicate 2 CHR ''i'')]), Affected 1)]"
  let ?c' = "\<lparr>r = uncommitted_registry, dbName = ''db'', name = ''coll''\<rparr>"
  have existing: "namespace_existing (example_collection ''db'' ''coll'') (example_engine [1, 2])
      example_pool example_meta"
    by (rule example_existing)
  have log: "sent \<lparr>store = [1, 2], sent = ?new\<rparr> = sent (example_engine [1, 2]) @ ?new"
    by (simp add: example_engine_def)
  have total: "sint (2 :: int32) = sint (1 :: int64) + sint (0 :: int64) + sint (1 :: int64)"
    "sint (1 :: int64) + sint (0 :: int64) + sint (1 :: int64) < 2 ^ 31"
    by simp_all
  have query: "update_query example_helpers (example_collection ''db'' ''coll'') example_meta =
      ''UPDATE db.coll_1 SET _jsonb = $1 WHERE _id = $2''"
    by (simp add: update_query_def example_helpers_def example_collection_def example_meta_def)
  have encodable: "list_all (\<lambda>d. update_stmt example_helpers
       (update_query example_helpers (example_collection ''db'' ''coll'') example_meta) d \<noteq> None)
     [1, 5, 2]"
    by (simp add: update_stmt_def example_helpers_def)
  have answers: "\<forall>st args. \<exists>tag st'.
      Exec example_pool st
        (update_query example_helpers (example_collection ''db'' ''coll'') example_meta) args =
      Inr (tag, st')"
    by (simp add: query) (simp add: example_pool_def)
  have commits: "\<forall>st. Begin example_pool st = None \<and> Commit example_pool st = None"
    by (simp add: example_pool_def)
  have existing': "namespace_existing ?c' (example_engine [1, 2]) uncommitted_pool example_meta"
    by (simp add: namespace_existing_def uncommitted_registry_def example_registry_def)
  have failed: "fst (UpdateAll example_helpers ?c'
        \<lparr>UpdateAllParams.Docs = [1, 5, 2]\<rparr> (example_engine [1, 2])) =
      Inl (Err (LazyError (LazyError (Raw (OtherError ''commit failed'')))))"
    by (simp only: UpdateAll_example_uncommitted fst_conv)
  have log': "sent \<lparr>store = [1, 2], sent = ?new\<rparr> = sent (example_engine [1, 2]) @ ?new"
    by (simp add: example_engine_def)
  have kept: "store (snd (UpdateAll example_helpers ?c'
        \<lparr>UpdateAllParams.Docs = [1, 5, 2]\<rparr> (example_engine [1, 2]))) = [1, 2]"
    by (simp only: UpdateAll_example_uncommitted) simp
  show ?thesis
    using UpdateAll_counts [OF existing UpdateAll_example log]
      UpdateAll_counts [OF existing' UpdateAll_example_uncommitted log']
      existing UpdateAll_example total encodable answers commits existing' failed kept
    by blast
qed

end
